theory Spec2Isabelle
  imports Main
begin

section \<open>Errors\<close>

text \<open>
  A thrown JavaScript error object: the class it was constructed from (its prototype),
  and its \<open>name\<close> and \<open>message\<close> properties. The cache code reads only \<open>name\<close> and
  \<open>message\<close>; the class is kept so that statements can speak about errors of any class.
  A \<open>char\<close> of a \<open>string\<close> stands for one UTF-16 code unit of the JavaScript string.
\<close>

datatype error_class = ValidationErrorClass | ReserveCacheErrorClass | ErrorClass | ForeignClass string

record js_error =
  cls :: error_class
  name :: string
  message :: string

text \<open>The static \<open>name\<close> property of the two classes (\<open>ValidationError.name\<close>,
  \<open>ReserveCacheError.name\<close>): the class names.\<close>

definition ValidationError_name :: string where
  "ValidationError_name = ''ValidationError''"

definition ReserveCacheError_name :: string where
  "ReserveCacheError_name = ''ReserveCacheError''"

definition new_ValidationError :: "string \<Rightarrow> js_error" where
  "new_ValidationError msg =
     \<lparr>cls = ValidationErrorClass, name = ''ValidationError'', message = msg\<rparr>"

definition new_ReserveCacheError :: "string \<Rightarrow> js_error" where
  "new_ReserveCacheError msg =
     \<lparr>cls = ReserveCacheErrorClass, name = ''ReserveCacheError'', message = msg\<rparr>"

definition new_Error :: "string \<Rightarrow> js_error" where
  "new_Error msg = \<lparr>cls = ErrorClass, name = ''Error'', message = msg\<rparr>"

text \<open>\<open>`${error}`\<close>: \<open>Error.prototype.toString\<close>.\<close>

definition error_toString :: "js_error \<Rightarrow> string" where
  "error_toString e =
     (if name e = [] then message e
      else if message e = [] then name e
      else name e @ '': '' @ message e)"

section \<open>Collaborators and the trace of their calls\<close>

record cache_entry =
  cacheKey :: "string option"
  archiveLocation :: "string option"

record download_options =
  lookupOnly :: "bool option"

record upload_options =
  uploadConcurrency :: "nat option"
  uploadChunkSize :: "nat option"

text \<open>
  Every call that leaves the module is an event of the trace, in program order: the
  logging calls of \<open>@actions/core\<close>, the remote cache client (\<open>./backend\<close>), the tar
  codec, \<open>child_process.execSync\<close> and the file utilities.
\<close>

datatype event =
    CoreDebug string
  | CoreInfo string
  | CoreWarning string
  | GetCacheEntry "string list" "string list" string bool
  | GetCacheEntrySync string "string list"
  | DownloadCache string string "download_options option"
  | DownloadCacheSync string "string list"
  | SaveCache string "string list" string string bool nat
  | SaveCacheSync string "string list"
  | ResolvePaths "string list"
  | CreateTempDirectory
  | GetArchiveFileSizeInBytes string
  | UnlinkFile string
  | ListTar string string
  | ExtractTar string string
  | CreateTar string "string list" string
  | GetTarPath
  | ExecSync string bool

text \<open>
  What the surroundings answer. Each fallible collaborator returns \<open>Inl\<close> of the error
  it throws (or rejects with) or \<open>Inr\<close> of its value; within one invocation each is
  called at most once, so a function of the arguments covers every behaviour.
  \<open>getCompressionMethod\<close> and \<open>getCacheFileName\<close> (\<open>../utils/actionUtils\<close>, whose source
  is not at hand; the specification describes the resolution as deterministic and free of
  side effects), \<open>path.join\<close>, \<open>JSON.stringify\<close> and the printing of a number are total
  pure functions taken as parameters. \<open>execSync\<close> returns the output buffer (\<open>None\<close> for \<open>null\<close>);
  its second argument tells whether \<open>{stdio: 'inherit'}\<close> was passed.
\<close>

record env =
  process_platform :: string
  process_env_GITHUB_WORKSPACE :: "string option"
  process_cwd :: string
  core_isDebug :: bool
  getCompressionMethod :: "string \<Rightarrow> string"
  getCacheFileName :: "string \<Rightarrow> string"
  path_join :: "string \<Rightarrow> string \<Rightarrow> string"
  JSON_stringify :: "string list \<Rightarrow> string"
  Number_toString :: "nat \<Rightarrow> string"
  cacheHttpClient_getCacheEntry ::
    "string list \<Rightarrow> string list \<Rightarrow> string \<Rightarrow> bool \<Rightarrow> js_error + cache_entry option"
  cacheHttpClient_getCacheEntrySync ::
    "string \<Rightarrow> string list \<Rightarrow> js_error + cache_entry option"
  cacheHttpClient_downloadCache ::
    "string \<Rightarrow> string \<Rightarrow> download_options option \<Rightarrow> js_error + unit"
  cacheHttpClient_downloadCacheSync :: "string \<Rightarrow> string list \<Rightarrow> js_error + unit"
  cacheHttpClient_saveCache ::
    "string \<Rightarrow> string list \<Rightarrow> string \<Rightarrow> string \<Rightarrow> bool \<Rightarrow> nat \<Rightarrow> js_error + unit"
  cacheHttpClient_saveCacheSync :: "string \<Rightarrow> string list \<Rightarrow> js_error + unit"
  utils_resolvePaths :: "string list \<Rightarrow> js_error + string list"
  utils_createTempDirectory :: "js_error + string"
  utils_getArchiveFileSizeInBytes :: "string \<Rightarrow> js_error + nat"
  utils_unlinkFile :: "string \<Rightarrow> js_error + unit"
  listTar :: "string \<Rightarrow> string \<Rightarrow> js_error + unit"
  extractTar :: "string \<Rightarrow> string \<Rightarrow> js_error + unit"
  createTar :: "string \<Rightarrow> string list \<Rightarrow> string \<Rightarrow> js_error + unit"
  getTarPath :: "js_error + string"
  execSync :: "string \<Rightarrow> bool \<Rightarrow> js_error + string option"

section \<open>Sequencing, exceptions and \<open>try\<close>/\<open>catch\<close>/\<open>finally\<close>\<close>

text \<open>
  A statement runs on the trace so far and the function's mutable local variable
  (\<open>archivePath\<close> in \<open>restoreCache\<close>, \<open>cacheId\<close> in the save functions); it throws
  (\<open>Inl\<close>) or yields a value (\<open>Inr\<close>).
\<close>

type_synonym ('l, 'a) prog = "event list \<times> 'l \<Rightarrow> (js_error + 'a) \<times> (event list \<times> 'l)"

definition ret :: "'a \<Rightarrow> ('l, 'a) prog" where
  "ret x = (\<lambda>s. (Inr x, s))"

definition throw :: "js_error \<Rightarrow> ('l, 'a) prog" where
  "throw e = (\<lambda>s. (Inl e, s))"

definition bind :: "('l, 'a) prog \<Rightarrow> ('a \<Rightarrow> ('l, 'b) prog) \<Rightarrow> ('l, 'b) prog" where
  "bind m f = (\<lambda>s. case m s of (Inl e, s1) \<Rightarrow> (Inl e, s1) | (Inr x, s1) \<Rightarrow> f x s1)"

definition call :: "event \<Rightarrow> js_error + 'a \<Rightarrow> ('l, 'a) prog" where
  "call ev outcome = (\<lambda>(tr, l). (outcome, (tr @ [ev], l)))"

definition get_local :: "('l, 'l) prog" where
  "get_local = (\<lambda>(tr, l). (Inr l, (tr, l)))"

definition set_local :: "'l \<Rightarrow> ('l, unit) prog" where
  "set_local v = (\<lambda>(tr, l). (Inr (), (tr, v)))"

definition core_debug :: "string \<Rightarrow> ('l, unit) prog" where
  "core_debug msg = call (CoreDebug msg) (Inr ())"

definition core_info :: "string \<Rightarrow> ('l, unit) prog" where
  "core_info msg = call (CoreInfo msg) (Inr ())"

definition core_warning :: "string \<Rightarrow> ('l, unit) prog" where
  "core_warning msg = call (CoreWarning msg) (Inr ())"

text \<open>How a block ends when it does not throw: by a \<open>return\<close> statement, or by
  running off its end.\<close>

datatype 'a completion = Return 'a | Normal

definition try_catch :: "('l, 'a) prog \<Rightarrow> (js_error \<Rightarrow> ('l, 'a) prog) \<Rightarrow> ('l, 'a) prog" where
  "try_catch body handler =
     (\<lambda>s. case body s of (Inl e, s1) \<Rightarrow> handler e s1 | (Inr x, s1) \<Rightarrow> (Inr x, s1))"

text \<open>The finalizer runs after the body, or after the handler when the body threw;
  an error of the finalizer replaces the outcome, otherwise the outcome stands.\<close>

definition try_catch_finally ::
  "('l, 'a) prog \<Rightarrow> (js_error \<Rightarrow> ('l, 'a) prog) \<Rightarrow> ('l, unit) prog \<Rightarrow> ('l, 'a) prog" where
  "try_catch_finally body handler finalizer =
     (\<lambda>s. case try_catch body handler s of
            (r, s2) \<Rightarrow>
              (case finalizer s2 of
                 (Inl e, s3) \<Rightarrow> (Inl e, s3)
               | (Inr u, s3) \<Rightarrow> (r, s3)))"

definition run :: "('l, 'a) prog \<Rightarrow> 'l \<Rightarrow> (js_error + 'a) \<times> event list" where
  "run p l0 = (case p ([], l0) of (r, (tr, l)) \<Rightarrow> (r, tr))"

section \<open>JavaScript values\<close>

text \<open>Truthiness of a string (\<open>""\<close> is falsy) and of a possibly undefined string.\<close>

definition truthy :: "string \<Rightarrow> bool" where
  "truthy s = (s \<noteq> [])"

definition truthy_opt :: "string option \<Rightarrow> bool" where
  "truthy_opt v = (case v of None \<Rightarrow> False | Some s \<Rightarrow> truthy s)"

text \<open>\<open>Array.prototype.join\<close>.\<close>

fun join :: "string \<Rightarrow> string list \<Rightarrow> string" where
  "join sep [] = []"
| "join sep [x] = x"
| "join sep (x # y # ys) = x @ sep @ join sep (y # ys)"

text \<open>\<open>`"${s}"`\<close>: the string between double quotes.\<close>

definition quoted :: "string \<Rightarrow> string" where
  "quoted s = CHR 0x22 # s @ [CHR 0x22]"

text \<open>\<open>Math.round(n / (1024 * 1024))\<close> for a byte count \<open>n\<close>: division by a power of two
  is exact, and \<open>Math.round\<close> rounds a half up.\<close>

definition round_MB :: "nat \<Rightarrow> nat" where
  "round_MB n = (n + 524288) div 1048576"

section \<open>Validation\<close>

text \<open>\<open>checkPaths\<close>: \<open>paths\<close> may be absent (\<open>!paths\<close>) or empty.\<close>

definition checkPaths :: "string list option \<Rightarrow> ('l, unit) prog" where
  "checkPaths paths =
     (if paths = None \<or> paths = Some [] then
        throw (new_ValidationError
          ''Path Validation Error: At least one directory or file path is required'')
      else ret ())"

text \<open>The array the later statements read once \<open>checkPaths\<close> has passed.\<close>

definition paths_of :: "string list option \<Rightarrow> string list" where
  "paths_of paths = (case paths of None \<Rightarrow> [] | Some ps \<Rightarrow> ps)"

text \<open>The regular expression \<open>/^[^,]*$/\<close> matches exactly the strings without a comma.\<close>

definition regex_test :: "string \<Rightarrow> bool" where
  "regex_test key = list_all (\<lambda>c. c \<noteq> CHR '','') key"

definition checkKey :: "string \<Rightarrow> ('l, unit) prog" where
  "checkKey key =
     (if length key > 512 then
        throw (new_ValidationError
          (''Key Validation Error: '' @ key @ '' cannot be larger than 512 characters.''))
      else if \<not> regex_test key then
        throw (new_ValidationError
          (''Key Validation Error: '' @ key @ '' cannot contain commas.''))
      else ret ())"

text \<open>\<open>for (const key of keys) { checkKey(key); }\<close>\<close>

fun checkKeys :: "string list \<Rightarrow> ('l, unit) prog" where
  "checkKeys [] = ret ()"
| "checkKeys (key # keys) = bind (checkKey key) (\<lambda>_. checkKeys keys)"

section \<open>Restore\<close>

text \<open>\<open>process.env["GITHUB_WORKSPACE"] || process.cwd()\<close>\<close>

definition baseDir :: "env \<Rightarrow> string" where
  "baseDir env =
     (case process_env_GITHUB_WORKSPACE env of
        None \<Rightarrow> process_cwd env
      | Some w \<Rightarrow> if truthy w then w else process_cwd env)"

text \<open>\<open>p.replace(/\\/g, '/')\<close>\<close>

definition toTarPath :: "string \<Rightarrow> string" where
  "toTarPath p = map (\<lambda>c. if c = CHR 0x5C then CHR ''/'' else c) p"

text \<open>\<open>options?.lookupOnly\<close>\<close>

definition options_lookupOnly :: "download_options option \<Rightarrow> bool" where
  "options_lookupOnly options =
     (case options of None \<Rightarrow> False | Some opts \<Rightarrow> lookupOnly opts = Some True)"

text \<open>\<open>if (output && output.length > 0) { log(output.toString()); }\<close>\<close>

definition log_output :: "(string \<Rightarrow> ('l, unit) prog) \<Rightarrow> string option \<Rightarrow> ('l, unit) prog" where
  "log_output logger output =
     (case output of
        None \<Rightarrow> ret ()
      | Some out \<Rightarrow> if length out > 0 then logger out else ret ())"

text \<open>The extraction of \<open>restoreCache\<close> (the three-way \<open>if\<close> on \<open>customCompression\<close> and
  \<open>process.platform\<close>).\<close>

definition restoreCache_extract ::
  "env \<Rightarrow> string \<Rightarrow> string \<Rightarrow> string \<Rightarrow> ('l, unit) prog" where
  "restoreCache_extract env customCompression compressionMethod archivePath =
     (if truthy customCompression \<and> process_platform env \<noteq> ''win32'' then
        (let compressionArgs =
               (if customCompression = ''none'' then []
                else ''--use-compress-program='' @ customCompression);
             command = ''tar -xf '' @ archivePath @ '' -P -C '' @ baseDir env @ '' ''
                         @ compressionArgs
         in bind (core_info (''Extracting '' @ archivePath @ '' to '' @ baseDir env)) (\<lambda>_.
            bind (call (ExecSync command False) (execSync env command False)) (\<lambda>output.
            log_output core_info output)))
      else if truthy customCompression \<and> process_platform env = ''win32'' then
        bind (call GetTarPath (getTarPath env)) (\<lambda>tarPath.
        (let lz4Path = ''lz4.exe'';
             args = (if customCompression \<noteq> ''none''
                     then [''--use-compress-program='' @ quoted lz4Path] else [])
                    @ [''-xf'', quoted (toTarPath archivePath)]
                    @ [''-P'']
                    @ [''-C'', quoted (toTarPath (baseDir env))];
             command = quoted tarPath @ '' '' @ join '' '' args
         in bind (core_debug (''Executing command: '' @ command)) (\<lambda>_.
            bind (call (ExecSync command True) (execSync env command True)) (\<lambda>output.
            log_output core_debug output))))
      else
        call (ExtractTar archivePath compressionMethod)
          (extractTar env archivePath compressionMethod))"

text \<open>The \<open>try\<close> block of \<open>restoreCache\<close>. The test \<open>!cacheEntry?.archiveLocation\<close> holds
  when there is no entry, when the entry has no \<open>archiveLocation\<close>, and when the
  \<open>archiveLocation\<close> is the empty string. The local variable is \<open>archivePath\<close>.\<close>

definition restoreCache_try ::
  "env \<Rightarrow> string list \<Rightarrow> string list \<Rightarrow> download_options option \<Rightarrow> bool \<Rightarrow> string \<Rightarrow> string
     \<Rightarrow> (string, string option completion) prog" where
  "restoreCache_try env keys paths options enableCrossOsArchive customCompression
       compressionMethod =
     bind (call (GetCacheEntry keys paths compressionMethod enableCrossOsArchive)
             (cacheHttpClient_getCacheEntry env keys paths compressionMethod
                enableCrossOsArchive)) (\<lambda>cacheEntry.
     case cacheEntry of
       None \<Rightarrow> ret (Return None)
     | Some entry \<Rightarrow>
        (case archiveLocation entry of
           None \<Rightarrow> ret (Return None)
         | Some location \<Rightarrow>
             if \<not> truthy location then ret (Return None)
             else if options_lookupOnly options then
               bind (core_info ''Lookup only - skipping download'') (\<lambda>_.
               ret (Return (cacheKey entry)))
             else
               bind (call CreateTempDirectory (utils_createTempDirectory env)) (\<lambda>tempDirectory.
               bind (set_local
                       (path_join env tempDirectory (getCacheFileName env compressionMethod))) (\<lambda>_.
               bind get_local (\<lambda>archivePath.
               bind (core_debug (''Archive Path: '' @ archivePath)) (\<lambda>_.
               bind (call (DownloadCache location archivePath options)
                       (cacheHttpClient_downloadCache env location archivePath options)) (\<lambda>_.
               bind (if core_isDebug env then
                       (if truthy customCompression then
                          core_debug ''ListTar unavailable with custom compression method''
                        else call (ListTar archivePath compressionMethod)
                               (listTar env archivePath compressionMethod))
                     else ret ()) (\<lambda>_.
               bind (call (GetArchiveFileSizeInBytes archivePath)
                       (utils_getArchiveFileSizeInBytes env archivePath)) (\<lambda>archiveFileSize.
               bind (core_info (''Cache Size: ~'' @ Number_toString env (round_MB archiveFileSize)
                       @ '' MB ('' @ Number_toString env archiveFileSize @ '' B)'')) (\<lambda>_.
               bind (restoreCache_extract env customCompression compressionMethod
                       archivePath) (\<lambda>_.
               bind (core_info ''Cache restored successfully'') (\<lambda>_.
               ret (Return (cacheKey entry))))))))))))))"

text \<open>The \<open>catch\<close> clause of both restore functions: an error named as
  \<open>ValidationError.name\<close> is thrown again, any other is logged as a warning and the
  \<open>try\<close> statement completes normally.\<close>

definition restoreCache_catch :: "js_error \<Rightarrow> ('l, 'a completion) prog" where
  "restoreCache_catch error =
     (if name error = ValidationError_name then throw error
      else bind (core_warning (''Failed to restore: '' @ message error)) (\<lambda>_. ret Normal))"

text \<open>The \<open>finally\<close> clause of \<open>restoreCache\<close> and \<open>saveCache\<close>: delete the archive; an
  error of the deletion is logged.\<close>

definition finally_unlink :: "env \<Rightarrow> string \<Rightarrow> ('l, unit) prog" where
  "finally_unlink env archivePath =
     try_catch (call (UnlinkFile archivePath) (utils_unlinkFile env archivePath))
       (\<lambda>error. core_debug (''Failed to delete archive: '' @ error_toString error))"

text \<open>The defaults of the optional parameters: \<open>enableCrossOsArchive = false\<close> and
  \<open>customCompression = "none"\<close> replace an absent (\<open>undefined\<close>) argument.\<close>

definition default_false :: "bool option \<Rightarrow> bool" where
  "default_false b = (case b of None \<Rightarrow> False | Some v \<Rightarrow> v)"

definition default_none :: "string option \<Rightarrow> string" where
  "default_none c = (case c of None \<Rightarrow> ''none'' | Some v \<Rightarrow> v)"

text \<open>\<open>restoreKeys = restoreKeys || []; keys = [primaryKey, ...restoreKeys]\<close>\<close>

definition restore_keys :: "string \<Rightarrow> string list option \<Rightarrow> string list" where
  "restore_keys primaryKey restoreKeys =
     primaryKey # (case restoreKeys of None \<Rightarrow> [] | Some ks \<Rightarrow> ks)"

text \<open>\<open>restoreCache(paths, primaryKey, restoreKeys?, options?, enableCrossOsArchive = false,
  customCompression = "none")\<close>. An absent (\<open>undefined\<close>) argument is \<open>None\<close>; the default
  of a parameter replaces it. The result is the thrown error or the returned value
  (\<open>None\<close> for \<open>undefined\<close>), with the trace.\<close>

definition restoreCache ::
  "env \<Rightarrow> string list option \<Rightarrow> string \<Rightarrow> string list option \<Rightarrow> download_options option
     \<Rightarrow> bool option \<Rightarrow> string option \<Rightarrow> (js_error + string option) \<times> event list" where
  "restoreCache env paths primaryKey restoreKeys options enableCrossOsArchive customCompression =
     (let enableCrossOsArchive = default_false enableCrossOsArchive;
          customCompression = default_none customCompression
      in run
        (bind (checkPaths paths) (\<lambda>_.
         (let keys = restore_keys primaryKey restoreKeys
          in bind (core_debug ''Resolved Keys:'') (\<lambda>_.
             bind (core_debug (JSON_stringify env keys)) (\<lambda>_.
             bind (if length keys > 10 then
                     throw (new_ValidationError
                       ''Key Validation Error: Keys are limited to a maximum of 10.'')
                   else ret ()) (\<lambda>_.
             bind (checkKeys keys) (\<lambda>_.
             (let compressionMethod = getCompressionMethod env customCompression
              in bind (set_local []) (\<lambda>_.
                 bind (try_catch_finally
                         (restoreCache_try env keys (paths_of paths) options enableCrossOsArchive
                            customCompression compressionMethod)
                         restoreCache_catch
                         (bind get_local (\<lambda>archivePath. finally_unlink env archivePath))) (\<lambda>c.
                 case c of Return v \<Rightarrow> ret v | Normal \<Rightarrow> ret None))))))))))
        [])"

text \<open>\<open>restoreCacheSync(paths, primaryKey, options?)\<close>: no archive, no local variable.\<close>

definition restoreCacheSync_try ::
  "env \<Rightarrow> string \<Rightarrow> string list \<Rightarrow> download_options option
     \<Rightarrow> (unit, string option completion) prog" where
  "restoreCacheSync_try env primaryKey paths options =
     bind (call (GetCacheEntrySync primaryKey paths)
             (cacheHttpClient_getCacheEntrySync env primaryKey paths)) (\<lambda>cacheEntry.
     case cacheEntry of
       None \<Rightarrow> ret (Return None)
     | Some entry \<Rightarrow>
        (case archiveLocation entry of
           None \<Rightarrow> ret (Return None)
         | Some location \<Rightarrow>
             if \<not> truthy location then ret (Return None)
             else if options_lookupOnly options then
               bind (core_info ''Lookup only - skipping download'') (\<lambda>_.
               ret (Return (cacheKey entry)))
             else
               bind (call (DownloadCacheSync location paths)
                       (cacheHttpClient_downloadCacheSync env location paths)) (\<lambda>_.
               bind (core_info ''Cache restored successfully'') (\<lambda>_.
               ret (Return (cacheKey entry))))))"

definition restoreCacheSync ::
  "env \<Rightarrow> string list option \<Rightarrow> string \<Rightarrow> download_options option
     \<Rightarrow> (js_error + string option) \<times> event list" where
  "restoreCacheSync env paths primaryKey options =
     run
       (bind (checkPaths paths) (\<lambda>_.
        bind (core_debug ''Resolved Keys:'') (\<lambda>_.
        bind (checkKey primaryKey) (\<lambda>_.
        bind (try_catch (restoreCacheSync_try env primaryKey (paths_of paths) options)
                restoreCache_catch) (\<lambda>c.
        case c of Return v \<Rightarrow> ret v | Normal \<Rightarrow> ret None)))))
       ()"

section \<open>Save\<close>

text \<open>The archive creation of \<open>saveCache\<close> (the three-way \<open>if\<close> on \<open>customCompression\<close>
  and \<open>process.platform\<close>).\<close>

definition saveCache_archive ::
  "env \<Rightarrow> string \<Rightarrow> string \<Rightarrow> string \<Rightarrow> string \<Rightarrow> string list \<Rightarrow> ('l, unit) prog" where
  "saveCache_archive env customCompression compressionMethod archiveFolder archivePath
       cachePaths =
     (if truthy customCompression \<and> process_platform env \<noteq> ''win32'' then
        (let compressionArgs =
               (if customCompression = ''none'' then []
                else ''--use-compress-program='' @ customCompression);
             command = ''tar --posix -cf '' @ archivePath @ '' --exclude '' @ archivePath
                         @ '' -P -C '' @ baseDir env @ '' '' @ join '' '' cachePaths @ '' ''
                         @ compressionArgs
         in bind (call (ExecSync command False) (execSync env command False)) (\<lambda>output.
            log_output core_debug output))
      else if truthy customCompression \<and> process_platform env = ''win32'' then
        bind (core_info ''Entering win path'') (\<lambda>_.
        bind (call GetTarPath (getTarPath env)) (\<lambda>tarPath.
        (let lz4Path = ''lz4.exe'';
             args = [''--posix'']
                    @ (if customCompression \<noteq> ''none''
                       then [''--use-compress-program='' @ quoted lz4Path] else [])
                    @ [''-cf'', quoted (toTarPath archivePath)]
                    @ [''--exclude'', quoted (toTarPath archivePath)]
                    @ [''-P'']
                    @ [''-C'', quoted (toTarPath (baseDir env))];
             quotedCachePaths = map (\<lambda>p. quoted (toTarPath p)) cachePaths;
             command = quoted tarPath @ '' '' @ join '' '' args @ '' ''
                         @ join '' '' quotedCachePaths
         in bind (core_info (''Executing command: '' @ command)) (\<lambda>_.
            bind (call (ExecSync command True) (execSync env command True)) (\<lambda>output.
            log_output core_debug output)))))
      else
        bind (call (CreateTar archiveFolder cachePaths compressionMethod)
                (createTar env archiveFolder cachePaths compressionMethod)) (\<lambda>_.
        if core_isDebug env then
          call (ListTar archivePath compressionMethod) (listTar env archivePath compressionMethod)
        else ret ()))"

text \<open>The \<open>try\<close> block of \<open>saveCache\<close>. The local variable is \<open>cacheId\<close>.\<close>

definition saveCache_try ::
  "env \<Rightarrow> string list \<Rightarrow> string \<Rightarrow> bool \<Rightarrow> string \<Rightarrow> string \<Rightarrow> string \<Rightarrow> string \<Rightarrow> string list
     \<Rightarrow> (int, unit) prog" where
  "saveCache_try env paths key enableCrossOsArchive customCompression compressionMethod
       archiveFolder archivePath cachePaths =
     bind (saveCache_archive env customCompression compressionMethod archiveFolder archivePath
             cachePaths) (\<lambda>_.
     bind (call (GetArchiveFileSizeInBytes archivePath)
             (utils_getArchiveFileSizeInBytes env archivePath)) (\<lambda>archiveFileSize.
     bind (core_info (''File Size: '' @ Number_toString env archiveFileSize)) (\<lambda>_.
     bind (call (SaveCache key paths archivePath compressionMethod enableCrossOsArchive
                   archiveFileSize)
             (cacheHttpClient_saveCache env key paths archivePath compressionMethod
                enableCrossOsArchive archiveFileSize)) (\<lambda>_.
     set_local 1))))"

text \<open>The \<open>catch\<close> clause of both save functions.\<close>

definition saveCache_catch :: "js_error \<Rightarrow> ('l, unit) prog" where
  "saveCache_catch error =
     (if name error = ValidationError_name then throw error
      else if name error = ReserveCacheError_name then
        core_info (''Failed to save: '' @ message error)
      else core_warning (''Failed to save: '' @ message error))"

text \<open>\<open>saveCache(paths, key, options?, enableCrossOsArchive = false,
  customCompression = "none")\<close>; \<open>options\<close> is not read.\<close>

definition saveCache ::
  "env \<Rightarrow> string list option \<Rightarrow> string \<Rightarrow> upload_options option \<Rightarrow> bool option \<Rightarrow> string option
     \<Rightarrow> (js_error + int) \<times> event list" where
  "saveCache env paths key options enableCrossOsArchive customCompression =
     (let enableCrossOsArchive = default_false enableCrossOsArchive;
          customCompression = default_none customCompression
      in run
        (bind (core_info ''Saving Cache via archive.'') (\<lambda>_.
         bind (checkPaths paths) (\<lambda>_.
         bind (checkKey key) (\<lambda>_.
         (let compressionMethod = getCompressionMethod env customCompression
          in bind (set_local (- 1)) (\<lambda>_.
             bind (core_info (JSON_stringify env (paths_of paths))) (\<lambda>_.
             bind (call (ResolvePaths (paths_of paths))
                     (utils_resolvePaths env (paths_of paths))) (\<lambda>cachePaths.
             bind (core_info ''Cache Paths:'') (\<lambda>_.
             bind (core_info (JSON_stringify env cachePaths)) (\<lambda>_.
             bind (if length cachePaths = 0 then
                     throw (new_Error
                       ''Path Validation Error: Path(s) specified in the action for caching do(es) not exist, hence no cache is being saved.'')
                   else ret ()) (\<lambda>_.
             bind (call CreateTempDirectory (utils_createTempDirectory env)) (\<lambda>archiveFolder.
             (let archivePath =
                    path_join env archiveFolder (getCacheFileName env compressionMethod)
              in bind (core_info (''Archive Path: '' @ archivePath)) (\<lambda>_.
                 bind (try_catch_finally
                         (saveCache_try env (paths_of paths) key enableCrossOsArchive
                            customCompression compressionMethod archiveFolder archivePath
                            cachePaths)
                         saveCache_catch
                         (finally_unlink env archivePath)) (\<lambda>_.
                 get_local)))))))))))))))
        (- 1))"

text \<open>\<open>saveCacheSync(paths, key)\<close>, and its \<open>try\<close> block.\<close>

definition saveCacheSync_try :: "env \<Rightarrow> string \<Rightarrow> string list \<Rightarrow> (int, unit) prog" where
  "saveCacheSync_try env key paths =
     bind (call (SaveCacheSync key paths) (cacheHttpClient_saveCacheSync env key paths)) (\<lambda>_.
     set_local 1)"

definition saveCacheSync ::
  "env \<Rightarrow> string list option \<Rightarrow> string \<Rightarrow> (js_error + int) \<times> event list" where
  "saveCacheSync env paths key =
     run
       (bind (core_info ''Saving Cache via sync.'') (\<lambda>_.
        bind (checkPaths paths) (\<lambda>_.
        bind (checkKey key) (\<lambda>_.
        bind (set_local (- 1)) (\<lambda>_.
        bind (call (ResolvePaths (paths_of paths))
                (utils_resolvePaths env (paths_of paths))) (\<lambda>cachePaths.
        bind (core_debug ''Cache Paths:'') (\<lambda>_.
        bind (core_debug (JSON_stringify env cachePaths)) (\<lambda>_.
        bind (if length cachePaths = 0 then
                throw (new_Error
                  ''Path Validation Error: Path(s) specified in the action for caching do(es) not exist, hence no cache is being saved.'')
              else ret ()) (\<lambda>_.
        bind (try_catch (saveCacheSync_try env key (paths_of paths)) saveCache_catch) (\<lambda>_.
        get_local))))))))))
       (- 1)"

section \<open>Reading a trace\<close>

text \<open>The calls of a trace other than logging.\<close>

fun is_log :: "event \<Rightarrow> bool" where
  "is_log (CoreDebug m) = True"
| "is_log (CoreInfo m) = True"
| "is_log (CoreWarning m) = True"
| "is_log ev = False"

definition calls :: "event list \<Rightarrow> event list" where
  "calls tr = filter (\<lambda>ev. \<not> is_log ev) tr"

text \<open>The calls of the remote cache client.\<close>

fun network_call :: "event \<Rightarrow> bool" where
  "network_call (GetCacheEntry keys paths m x) = True"
| "network_call (GetCacheEntrySync key paths) = True"
| "network_call (DownloadCache loc p opts) = True"
| "network_call (DownloadCacheSync loc paths) = True"
| "network_call (SaveCache key paths p m x n) = True"
| "network_call (SaveCacheSync key paths) = True"
| "network_call ev = False"

fun is_download :: "event \<Rightarrow> bool" where
  "is_download (DownloadCache loc p opts) = True"
| "is_download (DownloadCacheSync loc paths) = True"
| "is_download ev = False"

fun is_lookup :: "event \<Rightarrow> bool" where
  "is_lookup (GetCacheEntry keys paths m x) = True"
| "is_lookup (GetCacheEntrySync key paths) = True"
| "is_lookup ev = False"




fun is_warning :: "event \<Rightarrow> bool" where
  "is_warning (CoreWarning m) = True"
| "is_warning ev = False"

text \<open>The inputs that pass the validation of \<open>restoreCache\<close>, and a key that passes
  \<open>checkKey\<close>.\<close>

definition valid_key :: "string \<Rightarrow> bool" where
  "valid_key key = (length key \<le> 512 \<and> CHR '','' \<notin> set key)"

definition valid_paths :: "string list option \<Rightarrow> bool" where
  "valid_paths paths = (paths \<noteq> None \<and> paths \<noteq> Some [])"

definition valid_restore :: "string list option \<Rightarrow> string list \<Rightarrow> bool" where
  "valid_restore paths keys =
     (valid_paths paths \<and> length keys \<le> 10 \<and> list_all valid_key keys)"

section \<open>A concrete runner\<close>

text \<open>Decimal digits of a number, for the concrete runner.\<close>

function decimal :: "nat \<Rightarrow> string" where
  "decimal n =
     (if n < 10 then [''0123456789'' ! n]
      else decimal (n div 10) @ [''0123456789'' ! (n mod 10)])"
  by pat_completeness auto
termination
  by (relation "measure id") auto

declare decimal.simps [simp del]

text \<open>A remote store that holds the given keys: the lookup answers with the first of
  the requested keys that is stored.\<close>

definition store_lookup :: "string list \<Rightarrow> string list \<Rightarrow> cache_entry option" where
  "store_lookup stored keys =
     (case filter (\<lambda>k. k \<in> set stored) keys of
        [] \<Rightarrow> None
      | k # ks \<Rightarrow> Some \<lparr>cacheKey = Some k, archiveLocation = Some (''https://cache/'' @ k)\<rparr>)"

text \<open>A runner of the given platform, with the given keys in the remote store, on which
  every collaborator succeeds: archives are 10 bytes long, the only existing path is
  \<open>./dist\<close>, and an external process prints nothing.\<close>

definition runner :: "string \<Rightarrow> string list \<Rightarrow> env" where
  "runner platform stored =
     \<lparr>process_platform = platform,
      process_env_GITHUB_WORKSPACE = Some ''/work'',
      process_cwd = ''/home'',
      core_isDebug = False,
      getCompressionMethod = (\<lambda>c. ''gzip''),
      getCacheFileName = (\<lambda>m. ''cache.tgz''),
      path_join = (\<lambda>a b. a @ ''/'' @ b),
      JSON_stringify = (\<lambda>xs. ''['' @ join '','' (map quoted xs) @ '']''),
      Number_toString = decimal,
      cacheHttpClient_getCacheEntry = (\<lambda>keys paths m x. Inr (store_lookup stored keys)),
      cacheHttpClient_getCacheEntrySync = (\<lambda>key paths. Inr (store_lookup stored [key])),
      cacheHttpClient_downloadCache = (\<lambda>loc p opts. Inr ()),
      cacheHttpClient_downloadCacheSync = (\<lambda>loc paths. Inr ()),
      cacheHttpClient_saveCache = (\<lambda>key paths p m x n. Inr ()),
      cacheHttpClient_saveCacheSync = (\<lambda>key paths. Inr ()),
      utils_resolvePaths = (\<lambda>paths. Inr (filter (\<lambda>p. p = ''./dist'') paths)),
      utils_createTempDirectory = Inr ''/tmp/a'',
      utils_getArchiveFileSizeInBytes = (\<lambda>p. Inr 10),
      utils_unlinkFile = (\<lambda>p. if p = [] then Inl (new_Error ''ENOENT'') else Inr ()),
      listTar = (\<lambda>p m. Inr ()),
      extractTar = (\<lambda>p m. Inr ()),
      createTar = (\<lambda>folder paths m. Inr ()),
      getTarPath = Inr ''tar.exe'',
      execSync = (\<lambda>command inherit. Inr (if inherit then None else Some []))\<rparr>"

section \<open>What a block does\<close>

text \<open>
  Properties of a block \<open>p\<close>, whatever the trace and the local variable it starts from.
  \<open>emits \<phi> p\<close>: \<open>p\<close> has one outcome and appends one list of events to the trace, all
  satisfying \<open>\<phi>\<close>. \<open>keeps \<phi> p\<close>: moreover the local variable is left as it was.
  \<open>sets \<phi> v p\<close>: moreover the local variable is \<open>v\<close> when \<open>p\<close> completes and as it was when
  \<open>p\<close> throws. \<open>returns \<psi> p\<close>: a value that \<open>p\<close> yields satisfies \<open>\<psi>\<close>. \<open>leaves v p\<close>: the
  local variable is \<open>v\<close> when \<open>p\<close> ends. \<open>passes ev p\<close>: the trace holds \<open>ev\<close> when \<open>p\<close>
  ends.
\<close>

definition emits :: "(event \<Rightarrow> bool) \<Rightarrow> ('l, 'a) prog \<Rightarrow> bool" where
  "emits \<phi> p = (\<exists>r w. list_all \<phi> w \<and> (\<forall>tr l. \<exists>l'. p (tr, l) = (r, (tr @ w, l'))))"

definition keeps :: "(event \<Rightarrow> bool) \<Rightarrow> ('l, 'a) prog \<Rightarrow> bool" where
  "keeps \<phi> p = (\<exists>r w. list_all \<phi> w \<and> (\<forall>tr l. p (tr, l) = (r, (tr @ w, l))))"

definition sets :: "(event \<Rightarrow> bool) \<Rightarrow> 'l \<Rightarrow> ('l, 'a) prog \<Rightarrow> bool" where
  "sets \<phi> v p =
     (\<exists>r w. list_all \<phi> w \<and>
        (\<forall>tr l. p (tr, l) = (r, (tr @ w, case r of Inl e \<Rightarrow> l | Inr x \<Rightarrow> v))))"

definition returns :: "('a \<Rightarrow> bool) \<Rightarrow> ('l, 'a) prog \<Rightarrow> bool" where
  "returns \<psi> p = (\<forall>s x s'. p s = (Inr x, s') \<longrightarrow> \<psi> x)"

definition leaves :: "'l \<Rightarrow> ('l, 'a) prog \<Rightarrow> bool" where
  "leaves v p = (\<forall>s. snd (snd (p s)) = v)"

definition passes :: "event \<Rightarrow> ('l, 'a) prog \<Rightarrow> bool" where
  "passes ev p = (\<forall>s. ev \<in> set (fst (snd (p s))))"

text \<open>The events of the \<open>try\<close> block of \<open>restoreCache\<close> after the lookup, and of the \<open>try\<close>
  block of \<open>saveCache\<close>: the codec and the external process go with
  \<open>customCompression\<close>.\<close>

fun restore_event :: "string \<Rightarrow> event \<Rightarrow> bool" where
  "restore_event cc (CoreDebug msg) = True"
| "restore_event cc (CoreInfo msg) = True"
| "restore_event cc CreateTempDirectory = True"
| "restore_event cc (DownloadCache loc p opts) = True"
| "restore_event cc (ListTar p m) = True"
| "restore_event cc (GetArchiveFileSizeInBytes p) = True"
| "restore_event cc (ExtractTar p m) = (\<not> truthy cc)"
| "restore_event cc GetTarPath = truthy cc"
| "restore_event cc (ExecSync command inherit) = truthy cc"
| "restore_event cc ev = False"

fun save_event :: "string \<Rightarrow> event \<Rightarrow> bool" where
  "save_event cc (CoreDebug msg) = True"
| "save_event cc (CoreInfo msg) = True"
| "save_event cc (ListTar p m) = True"
| "save_event cc (GetArchiveFileSizeInBytes p) = True"
| "save_event cc (SaveCache key paths p m x n) = True"
| "save_event cc (CreateTar folder paths m) = (\<not> truthy cc)"
| "save_event cc GetTarPath = truthy cc"
| "save_event cc (ExecSync command inherit) = truthy cc"
| "save_event cc ev = False"

text \<open>What a \<open>try\<close> statement of the restore functions makes of the outcome of its block:
  the result of the function and the warning it logs. What the \<open>finally\<close> clause logs
  after the deletion.\<close>

definition restore_result :: "js_error + string option completion \<Rightarrow> js_error + string option" where
  "restore_result rb =
     (case rb of
        Inl e \<Rightarrow> if name e = ValidationError_name then Inl e else Inr None
      | Inr (Return v) \<Rightarrow> Inr v
      | Inr Normal \<Rightarrow> Inr None)"

definition restore_warning :: "js_error + 'a \<Rightarrow> event list" where
  "restore_warning rb =
     (case rb of
        Inl e \<Rightarrow> if name e = ValidationError_name then []
                 else [CoreWarning (''Failed to restore: '' @ message e)]
      | Inr c \<Rightarrow> [])"

definition unlink_log :: "env \<Rightarrow> string \<Rightarrow> event list" where
  "unlink_log env p =
     (case utils_unlinkFile env p of
        Inl e \<Rightarrow> [CoreDebug (''Failed to delete archive: '' @ error_toString e)]
      | Inr u \<Rightarrow> [])"

text \<open>The same for the save functions: the result is the value of \<open>cacheId\<close>.\<close>

definition save_result :: "js_error + unit \<Rightarrow> js_error + int" where
  "save_result rb =
     (case rb of
        Inl e \<Rightarrow> if name e = ValidationError_name then Inl e else Inr (- 1)
      | Inr u \<Rightarrow> Inr 1)"

definition save_log :: "js_error + unit \<Rightarrow> event list" where
  "save_log rb =
     (case rb of
        Inl e \<Rightarrow>
          if name e = ValidationError_name then []
          else if name e = ReserveCacheError_name then
            [CoreInfo (''Failed to save: '' @ message e)]
          else [CoreWarning (''Failed to save: '' @ message e)]
      | Inr u \<Rightarrow> [])"

text \<open>Runners on which one collaborator fails.\<close>

definition runner_download_fails :: env where
  "runner_download_fails =
     (runner ''linux'' [''build-123''])
       \<lparr>cacheHttpClient_downloadCache := (\<lambda>loc p opts. Inl (new_Error ''ECONNRESET''))\<rparr>"

definition runner_lookup_rejects :: env where
  "runner_lookup_rejects =
     (runner ''linux'' [''build-123''])
       \<lparr>cacheHttpClient_getCacheEntry :=
          (\<lambda>keys paths m x. Inl \<lparr>cls = ForeignClass ''HttpClientError'',
             name = ''ValidationError'', message = ''bad request''\<rparr>),
        cacheHttpClient_getCacheEntrySync :=
          (\<lambda>key paths. Inl \<lparr>cls = ForeignClass ''HttpClientError'',
             name = ''ValidationError'', message = ''bad request''\<rparr>)\<rparr>"

definition runner_upload_rejects :: env where
  "runner_upload_rejects =
     (runner ''linux'' [])
       \<lparr>cacheHttpClient_saveCache :=
          (\<lambda>key paths p m x n. Inl \<lparr>cls = ForeignClass ''HttpClientError'',
             name = ''ValidationError'', message = ''bad request''\<rparr>),
        cacheHttpClient_saveCacheSync :=
          (\<lambda>key paths. Inl \<lparr>cls = ForeignClass ''HttpClientError'',
             name = ''ValidationError'', message = ''bad request''\<rparr>)\<rparr>"

definition runner_reserved :: env where
  "runner_reserved =
     (runner ''linux'' [])
       \<lparr>cacheHttpClient_saveCache :=
          (\<lambda>key paths p m x n. Inl (new_ReserveCacheError ''already reserved'')),
        cacheHttpClient_saveCacheSync :=
          (\<lambda>key paths. Inl (new_ReserveCacheError ''already reserved''))\<rparr>"

definition runner_unlink_fails :: env where
  "runner_unlink_fails =
     (runner ''linux'' [''build-123''])
       \<lparr>utils_unlinkFile := (\<lambda>p. Inl (new_Error ''EPERM''))\<rparr>"

section \<open>Running statements\<close>

lemma ret_apply [simp]: "ret x s = (Inr x, s)"
  by (simp add: ret_def)

lemma throw_apply [simp]: "throw e s = (Inl e, s)"
  by (simp add: throw_def)

lemma bind_apply [simp]:
  "bind m f s = (case m s of (Inl e, s1) \<Rightarrow> (Inl e, s1) | (Inr x, s1) \<Rightarrow> f x s1)"
  by (simp add: bind_def)

lemma call_apply [simp]: "call ev outcome (tr, l) = (outcome, (tr @ [ev], l))"
  by (simp add: call_def)

lemma get_local_apply [simp]: "get_local (tr, l) = (Inr l, (tr, l))"
  by (simp add: get_local_def)

lemma set_local_apply [simp]: "set_local v (tr, l) = (Inr (), (tr, v))"
  by (simp add: set_local_def)

lemma core_debug_apply [simp]: "core_debug msg (tr, l) = (Inr (), (tr @ [CoreDebug msg], l))"
  by (simp add: core_debug_def)

lemma core_info_apply [simp]: "core_info msg (tr, l) = (Inr (), (tr @ [CoreInfo msg], l))"
  by (simp add: core_info_def)

lemma core_warning_apply [simp]:
  "core_warning msg (tr, l) = (Inr (), (tr @ [CoreWarning msg], l))"
  by (simp add: core_warning_def)

lemma try_catch_apply [simp]:
  "try_catch body handler s =
     (case body s of (Inl e, s1) \<Rightarrow> handler e s1 | (Inr x, s1) \<Rightarrow> (Inr x, s1))"
  by (simp add: try_catch_def)

text \<open>The \<open>finally\<close> clause never throws: it appends the deletion to the trace, and the
  log of its failure.\<close>

lemma finally_unlink_apply:
  "finally_unlink env p (tr, l) =
     (Inr (), (tr @ UnlinkFile p #
         (case utils_unlinkFile env p of
            Inl e \<Rightarrow> [CoreDebug (''Failed to delete archive: '' @ error_toString e)]
          | Inr u \<Rightarrow> []), l))"
  by (simp add: finally_unlink_def split: sum.splits)

section \<open>Keys that pass and keys that fail\<close>

lemma regex_test_iff: "regex_test key \<longleftrightarrow> CHR '','' \<notin> set key"
  by (auto simp: regex_test_def list_all_iff)

lemma checkKey_valid: "valid_key key \<Longrightarrow> checkKey key s = (Inr (), s)"
  by (simp add: checkKey_def valid_key_def regex_test_iff)

lemma checkKey_invalid:
  "\<not> valid_key key \<Longrightarrow> \<exists>msg. checkKey key s = (Inl (new_ValidationError msg), s)"
  by (auto simp: checkKey_def valid_key_def regex_test_iff)

lemma checkKeys_valid: "list_all valid_key keys \<Longrightarrow> checkKeys keys s = (Inr (), s)"
  by (induction keys) (simp_all add: checkKey_valid)

lemma checkKeys_invalid:
  "\<not> list_all valid_key keys \<Longrightarrow> \<exists>msg. checkKeys keys s = (Inl (new_ValidationError msg), s)"
proof (induction keys)
  case Nil
  then show ?case by simp
next
  case (Cons key keys)
  show ?case
  proof (cases "valid_key key")
    case True
    with Cons show ?thesis by (simp add: checkKey_valid)
  next
    case False
    from checkKey_invalid [OF False, of s] show ?thesis by auto
  qed
qed

section \<open>Rules for blocks\<close>

lemma keeps_ret: "keeps \<phi> (ret x)"
  unfolding keeps_def by (rule exI [of _ "Inr x"], rule exI [of _ "[]"]) simp

lemma keeps_throw: "keeps \<phi> (throw e)"
  unfolding keeps_def by (rule exI [of _ "Inl e"], rule exI [of _ "[]"]) simp

lemma keeps_call: "\<phi> ev \<Longrightarrow> keeps \<phi> (call ev outcome)"
  unfolding keeps_def by (rule exI [of _ outcome], rule exI [of _ "[ev]"]) simp

lemma keeps_core_debug: "\<phi> (CoreDebug msg) \<Longrightarrow> keeps \<phi> (core_debug msg)"
  unfolding core_debug_def by (rule keeps_call)

lemma keeps_core_info: "\<phi> (CoreInfo msg) \<Longrightarrow> keeps \<phi> (core_info msg)"
  unfolding core_info_def by (rule keeps_call)

lemma keeps_core_warning: "\<phi> (CoreWarning msg) \<Longrightarrow> keeps \<phi> (core_warning msg)"
  unfolding core_warning_def by (rule keeps_call)

lemma keeps_bind:
  assumes m: "keeps \<phi> m" and f: "\<And>x. keeps \<phi> (f x)"
  shows "keeps \<phi> (bind m f)"
proof -
  from m obtain r w where w: "list_all \<phi> w"
    and run_m: "\<And>tr l. m (tr, l) = (r, (tr @ w, l))"
    unfolding keeps_def by blast
  show ?thesis
  proof (cases r)
    case (Inl e)
    have "bind m f (tr, l) = (Inl e, (tr @ w, l))" for tr l
      using run_m [of tr l] Inl by simp
    with w show ?thesis unfolding keeps_def by blast
  next
    case (Inr x)
    from f [of x] obtain r2 w2 where w2: "list_all \<phi> w2"
      and run_f: "\<And>tr l. f x (tr, l) = (r2, (tr @ w2, l))"
      unfolding keeps_def by blast
    have "bind m f (tr, l) = (r2, (tr @ (w @ w2), l))" for tr l
      using run_m [of tr l] run_f [of "tr @ w" l] Inr by simp
    moreover from w w2 have "list_all \<phi> (w @ w2)" by simp
    ultimately show ?thesis unfolding keeps_def by blast
  qed
qed

lemma keeps_log_output:
  "(\<And>msg. keeps \<phi> (logger msg)) \<Longrightarrow> keeps \<phi> (log_output logger output)"
  by (simp add: log_output_def keeps_ret split: option.splits)

lemmas keeps_rules =
  keeps_ret keeps_throw keeps_bind keeps_call keeps_core_debug keeps_core_info
  keeps_core_warning keeps_log_output

lemma emits_keeps: "keeps \<phi> p \<Longrightarrow> emits \<phi> p"
  unfolding keeps_def emits_def by blast

lemma emits_bind:
  assumes m: "emits \<phi> m" and f: "\<And>x. emits \<phi> (f x)"
  shows "emits \<phi> (bind m f)"
proof -
  from m obtain r w where w: "list_all \<phi> w"
    and run_m: "\<And>tr l. \<exists>l'. m (tr, l) = (r, (tr @ w, l'))"
    unfolding emits_def by blast
  show ?thesis
  proof (cases r)
    case (Inl e)
    have "\<exists>l'. bind m f (tr, l) = (Inl e, (tr @ w, l'))" for tr l
      using run_m [of tr l] Inl by auto
    with w show ?thesis unfolding emits_def by blast
  next
    case (Inr x)
    from f [of x] obtain r2 w2 where w2: "list_all \<phi> w2"
      and run_f: "\<And>tr l. \<exists>l'. f x (tr, l) = (r2, (tr @ w2, l'))"
      unfolding emits_def by blast
    have "\<exists>l'. bind m f (tr, l) = (r2, (tr @ (w @ w2), l'))" for tr l
    proof -
      from run_m [of tr l] Inr obtain l1 where "m (tr, l) = (Inr x, (tr @ w, l1))" by auto
      moreover from run_f [of "tr @ w" l1] obtain l2
        where "f x (tr @ w, l1) = (r2, ((tr @ w) @ w2, l2))" by blast
      ultimately show ?thesis by simp
    qed
    moreover from w w2 have "list_all \<phi> (w @ w2)" by simp
    ultimately show ?thesis unfolding emits_def by blast
  qed
qed

text \<open>A local variable that is written and then read.\<close>

lemma emits_set_get:
  assumes "emits \<phi> (f v)"
  shows "emits \<phi> (bind (set_local v) (\<lambda>u. bind get_local f))"
proof -
  from assms obtain r w where w: "list_all \<phi> w"
    and run_f: "\<And>tr l. \<exists>l'. f v (tr, l) = (r, (tr @ w, l'))"
    unfolding emits_def by blast
  have "\<exists>l'. bind (set_local v) (\<lambda>u. bind get_local f) (tr, l) = (r, (tr @ w, l'))" for tr l
    using run_f [of tr v] by simp
  with w show ?thesis unfolding emits_def by blast
qed

lemmas emits_rules =
  emits_set_get emits_bind
  keeps_ret [THEN emits_keeps] keeps_throw [THEN emits_keeps] keeps_call [THEN emits_keeps]
  keeps_core_debug [THEN emits_keeps] keeps_core_info [THEN emits_keeps]
  keeps_core_warning [THEN emits_keeps]

text \<open>What a block that starts with a call emits.\<close>

lemma emits_first:
  assumes "\<And>x. emits \<phi> (f x)"
  shows "\<exists>r w. list_all \<phi> w \<and>
           (\<forall>tr l. \<exists>l'. bind (call ev outcome) f (tr, l) = (r, (tr @ ev # w, l')))"
proof (cases outcome)
  case (Inl e)
  then have "\<forall>tr l. \<exists>l'. bind (call ev outcome) f (tr, l) = (Inl e, (tr @ ev # [], l'))"
    by simp
  then show ?thesis by (intro exI [of _ "Inl e"] exI [of _ "[]"]) simp
next
  case (Inr x)
  from assms [of x] obtain r w where w: "list_all \<phi> w"
    and run_f: "\<And>tr l. \<exists>l'. f x (tr, l) = (r, (tr @ w, l'))"
    unfolding emits_def by blast
  have "\<exists>l'. bind (call ev outcome) f (tr, l) = (r, (tr @ ev # w, l'))" for tr l
    using run_f [of "tr @ [ev]" l] Inr by simp
  with w show ?thesis by blast
qed

lemma sets_set_local: "sets \<phi> v (set_local v)"
  unfolding sets_def by (rule exI [of _ "Inr ()"], rule exI [of _ "[]"]) simp

lemma sets_bind:
  assumes m: "keeps \<phi> m" and f: "\<And>x. sets \<phi> v (f x)"
  shows "sets \<phi> v (bind m f)"
proof -
  from m obtain r w where w: "list_all \<phi> w"
    and run_m: "\<And>tr l. m (tr, l) = (r, (tr @ w, l))"
    unfolding keeps_def by blast
  show ?thesis
  proof (cases r)
    case (Inl e)
    have "bind m f (tr, l) = (Inl e, (tr @ w, case Inl e of Inl e \<Rightarrow> l | Inr x \<Rightarrow> v))" for tr l
      using run_m [of tr l] Inl by simp
    with w show ?thesis unfolding sets_def by blast
  next
    case (Inr x)
    from f [of x] obtain r2 w2 where w2: "list_all \<phi> w2"
      and run_f: "\<And>tr l. f x (tr, l) = (r2, (tr @ w2, case r2 of Inl e \<Rightarrow> l | Inr x \<Rightarrow> v))"
      unfolding sets_def by blast
    have "bind m f (tr, l) = (r2, (tr @ (w @ w2), case r2 of Inl e \<Rightarrow> l | Inr x \<Rightarrow> v))"
      for tr l
      using run_m [of tr l] run_f [of "tr @ w" l] Inr by simp
    moreover from w w2 have "list_all \<phi> (w @ w2)" by simp
    ultimately show ?thesis unfolding sets_def by blast
  qed
qed

lemma returns_ret: "\<psi> x \<Longrightarrow> returns \<psi> (ret x)"
  by (simp add: returns_def)

lemma returns_bind: "(\<And>x. returns \<psi> (f x)) \<Longrightarrow> returns \<psi> (bind m f)"
  unfolding returns_def by (auto split: prod.splits sum.splits)

lemma returns_bind_call:
  "(\<And>x. outcome = Inr x \<Longrightarrow> returns \<psi> (f x)) \<Longrightarrow> returns \<psi> (bind (call ev outcome) f)"
  unfolding returns_def by (auto split: prod.splits sum.splits)

lemma leaves_call:
  "outcome = Inr x \<Longrightarrow> leaves v (f x) \<Longrightarrow> leaves v (bind (call ev outcome) f)"
  unfolding leaves_def by auto

lemma leaves_set_get:
  assumes "keeps \<phi> (f v)"
  shows "leaves v (bind (set_local v) (\<lambda>u. bind get_local f))"
proof -
  from assms obtain r w where "\<And>tr l. f v (tr, l) = (r, (tr @ w, l))"
    unfolding keeps_def by blast
  then show ?thesis unfolding leaves_def by auto
qed

section \<open>The blocks of the restore functions\<close>

lemma keeps_restoreCache_extract:
  "keeps (restore_event cc) (restoreCache_extract env cc m ap)"
  unfolding restoreCache_extract_def Let_def
  by (auto intro!: keeps_rules)

lemma restoreCache_try_emits:
  "\<exists>r w. list_all (restore_event cc) w \<and>
     (\<forall>tr l. \<exists>l'. restoreCache_try env keys paths options x cc m (tr, l) =
                  (r, (tr @ GetCacheEntry keys paths m x # w, l')))"
  unfolding restoreCache_try_def
  by (rule emits_first)
    (auto intro!: emits_rules keeps_restoreCache_extract [THEN emits_keeps] split: option.split)

lemma restoreCache_try_leaves:
  assumes hit: "cacheHttpClient_getCacheEntry env keys ps m x = Inr (Some entry)"
    and loc: "archiveLocation entry = Some loc" "truthy loc" "\<not> options_lookupOnly opts"
    and tmp: "utils_createTempDirectory env = Inr folder"
  shows "leaves (path_join env folder (getCacheFileName env m))
           (restoreCache_try env keys ps opts x cc m)"
  unfolding restoreCache_try_def
  apply (rule leaves_call [OF hit])
  apply (simp only: option.case loc if_False if_True not_True_eq_False not_False_eq_True)
  apply (rule leaves_call [OF tmp])
  apply (rule leaves_set_get [where \<phi> = "restore_event cc"])
  apply (auto intro!: keeps_rules keeps_restoreCache_extract)
  done

text \<open>The value of the \<open>try\<close> block: the key of the entry found, or \<open>undefined\<close>.\<close>

lemma restoreCache_try_returns:
  "returns
     (\<lambda>c. case cacheHttpClient_getCacheEntry env keys ps m x of
             Inl e \<Rightarrow> False
           | Inr None \<Rightarrow> c = Return None
           | Inr (Some entry) \<Rightarrow>
               c = Return (if truthy_opt (archiveLocation entry) then cacheKey entry else None))
     (restoreCache_try env keys ps opts x cc m)"
  unfolding restoreCache_try_def
  by (rule returns_bind_call)
    (auto intro!: returns_bind returns_ret simp: truthy_opt_def split: option.split)

lemma restoreCacheSync_try_emits:
  "\<exists>r w. list_all (\<lambda>ev. \<not> is_lookup ev) w \<and>
     (\<forall>tr l. \<exists>l'. restoreCacheSync_try env key paths options (tr, l) =
                  (r, (tr @ GetCacheEntrySync key paths # w, l')))"
  unfolding restoreCacheSync_try_def
  by (rule emits_first) (auto intro!: emits_rules split: option.split)

section \<open>The restore functions, from the outcome of their \<open>try\<close> block\<close>

lemma restoreCache_run:
  assumes valid: "valid_restore paths (restore_keys pk rks)"
    and body: "restoreCache_try env (restore_keys pk rks) (paths_of paths) opts
                 (default_false x) (default_none cc) (getCompressionMethod env (default_none cc))
                 ([CoreDebug ''Resolved Keys:'',
                   CoreDebug (JSON_stringify env (restore_keys pk rks))], []) = (rb, (tr1, ap))"
  shows "restoreCache env paths pk rks opts x cc =
           (restore_result rb, tr1 @ restore_warning rb @ UnlinkFile ap # unlink_log env ap)"
proof -
  from valid have paths: "checkPaths paths s = (Inr (), s)" for s :: "event list \<times> string"
    by (auto simp: valid_restore_def valid_paths_def checkPaths_def)
  from valid have len: "\<not> length (restore_keys pk rks) > 10"
    by (simp add: valid_restore_def)
  from valid have keys: "checkKeys (restore_keys pk rks) s = (Inr (), s)"
    for s :: "event list \<times> string"
    by (simp add: valid_restore_def checkKeys_valid)
  show ?thesis
    unfolding restoreCache_def Let_def run_def
    by (simp add: paths len keys body try_catch_finally_def finally_unlink_apply
          restoreCache_catch_def restore_result_def restore_warning_def unlink_log_def
          split: sum.splits completion.splits)
qed

lemma restoreCache_invalid:
  assumes "\<not> valid_restore paths (restore_keys pk rks)"
  shows "\<exists>msg. fst (restoreCache env paths pk rks opts x cc) = Inl (new_ValidationError msg)
           \<and> list_all is_log (snd (restoreCache env paths pk rks opts x cc))"
proof (cases "valid_paths paths")
  case False
  then show ?thesis
    unfolding restoreCache_def Let_def run_def
    by (auto simp: valid_paths_def checkPaths_def)
next
  case True
  then have paths: "checkPaths paths s = (Inr (), s)" for s :: "event list \<times> string"
    by (auto simp: valid_paths_def checkPaths_def)
  show ?thesis
  proof (cases "length (restore_keys pk rks) > 10")
    case True
    then show ?thesis
      unfolding restoreCache_def Let_def run_def by (auto simp: paths)
  next
    case False
    with assms \<open>valid_paths paths\<close> have "\<not> list_all valid_key (restore_keys pk rks)"
      by (simp add: valid_restore_def)
    from checkKeys_invalid [OF this] obtain msg
      where "checkKeys (restore_keys pk rks)
               ([CoreDebug ''Resolved Keys:'',
                 CoreDebug (JSON_stringify env (restore_keys pk rks))], [] :: string)
             = (Inl (new_ValidationError msg),
                ([CoreDebug ''Resolved Keys:'',
                  CoreDebug (JSON_stringify env (restore_keys pk rks))], []))"
      by blast
    with False show ?thesis
      unfolding restoreCache_def Let_def run_def by (auto simp: paths)
  qed
qed

text \<open>The shape of every run of \<open>restoreCache\<close> on valid input.\<close>

lemma restoreCache_shape:
  assumes valid: "valid_restore paths (restore_keys pk rks)"
  shows "\<exists>rb w ap. list_all (restore_event (default_none cc)) w
     \<and> (\<forall>s. fst (restoreCache_try env (restore_keys pk rks) (paths_of paths) opts
                  (default_false x) (default_none cc)
                  (getCompressionMethod env (default_none cc)) s) = rb)
     \<and> restoreCache env paths pk rks opts x cc =
         (restore_result rb,
          [CoreDebug ''Resolved Keys:'', CoreDebug (JSON_stringify env (restore_keys pk rks)),
           GetCacheEntry (restore_keys pk rks) (paths_of paths)
             (getCompressionMethod env (default_none cc)) (default_false x)]
          @ w @ restore_warning rb @ UnlinkFile ap # unlink_log env ap)"
proof -
  let ?body = "restoreCache_try env (restore_keys pk rks) (paths_of paths) opts
                 (default_false x) (default_none cc) (getCompressionMethod env (default_none cc))"
  let ?tr0 = "[CoreDebug ''Resolved Keys:'',
               CoreDebug (JSON_stringify env (restore_keys pk rks))]"
  let ?ev = "GetCacheEntry (restore_keys pk rks) (paths_of paths)
               (getCompressionMethod env (default_none cc)) (default_false x)"
  from restoreCache_try_emits obtain rb w
    where w: "list_all (restore_event (default_none cc)) w"
      and run_body: "\<And>tr l. \<exists>l'. ?body (tr, l) = (rb, (tr @ ?ev # w, l'))"
    by blast
  have fst_body: "fst (?body s) = rb" for s
    using run_body [of "fst s" "snd s"] by auto
  from run_body [of ?tr0 "[]"] obtain ap
    where "?body (?tr0, []) = (rb, (?tr0 @ ?ev # w, ap))" by blast
  from restoreCache_run [OF valid this]
  have "restoreCache env paths pk rks opts x cc =
          (restore_result rb,
           (?tr0 @ ?ev # w) @ restore_warning rb @ UnlinkFile ap # unlink_log env ap)" .
  with w fst_body show ?thesis by auto
qed

lemma restoreCache_outcome:
  assumes valid: "valid_restore paths (restore_keys pk rks)"
    and body: "fst (restoreCache_try env (restore_keys pk rks) (paths_of paths) opts
                 (default_false x) (default_none cc)
                 (getCompressionMethod env (default_none cc)) s) = rb"
  shows "fst (restoreCache env paths pk rks opts x cc) = restore_result rb"
    and "set (restore_warning rb) \<subseteq> set (snd (restoreCache env paths pk rks opts x cc))"
proof -
  from restoreCache_shape [OF valid, of cc env opts x] obtain rb' w ap
    where fst_body: "\<And>s. fst (restoreCache_try env (restore_keys pk rks) (paths_of paths) opts
                 (default_false x) (default_none cc)
                 (getCompressionMethod env (default_none cc)) s) = rb'"
      and run: "restoreCache env paths pk rks opts x cc =
         (restore_result rb',
          [CoreDebug ''Resolved Keys:'', CoreDebug (JSON_stringify env (restore_keys pk rks)),
           GetCacheEntry (restore_keys pk rks) (paths_of paths)
             (getCompressionMethod env (default_none cc)) (default_false x)]
          @ w @ restore_warning rb' @ UnlinkFile ap # unlink_log env ap)"
    by blast
  from fst_body [of s] body have "rb' = rb" by simp
  with run show "fst (restoreCache env paths pk rks opts x cc) = restore_result rb"
    and "set (restore_warning rb) \<subseteq> set (snd (restoreCache env paths pk rks opts x cc))"
    by auto
qed

lemma restoreCacheSync_run:
  assumes valid: "valid_paths paths" "valid_key pk"
    and body: "restoreCacheSync_try env pk (paths_of paths) opts
                 ([CoreDebug ''Resolved Keys:''], ()) = (rb, (tr1, u))"
  shows "restoreCacheSync env paths pk opts = (restore_result rb, tr1 @ restore_warning rb)"
proof -
  from valid have paths: "checkPaths paths s = (Inr (), s)" for s :: "event list \<times> unit"
    by (auto simp: valid_paths_def checkPaths_def)
  show ?thesis
    unfolding restoreCacheSync_def run_def
    by (simp add: paths checkKey_valid [OF valid(2)] body restoreCache_catch_def
          restore_result_def restore_warning_def split: sum.splits completion.splits)
qed

lemma restoreCacheSync_shape:
  assumes valid: "valid_paths paths" "valid_key pk"
  shows "\<exists>rb w. list_all (\<lambda>ev. \<not> is_lookup ev) w
     \<and> (\<forall>s. fst (restoreCacheSync_try env pk (paths_of paths) opts s) = rb)
     \<and> restoreCacheSync env paths pk opts =
         (restore_result rb,
          [CoreDebug ''Resolved Keys:'', GetCacheEntrySync pk (paths_of paths)]
          @ w @ restore_warning rb)"
proof -
  let ?body = "restoreCacheSync_try env pk (paths_of paths) opts"
  let ?ev = "GetCacheEntrySync pk (paths_of paths)"
  from restoreCacheSync_try_emits obtain rb w
    where w: "list_all (\<lambda>ev. \<not> is_lookup ev) w"
      and run_body: "\<And>tr l. \<exists>l'. ?body (tr, l) = (rb, (tr @ ?ev # w, l'))"
    by blast
  have fst_body: "fst (?body s) = rb" for s
    using run_body [of "fst s" "snd s"] by (cases s) auto
  from run_body [of "[CoreDebug ''Resolved Keys:'']" "()"]
  have "?body ([CoreDebug ''Resolved Keys:''], ())
          = (rb, ([CoreDebug ''Resolved Keys:''] @ ?ev # w, ()))" by simp
  from restoreCacheSync_run [OF valid this] w fst_body show ?thesis by auto
qed

lemma restoreCacheSync_outcome:
  assumes valid: "valid_paths paths" "valid_key pk"
    and body: "fst (restoreCacheSync_try env pk (paths_of paths) opts s) = rb"
  shows "fst (restoreCacheSync env paths pk opts) = restore_result rb"
    and "set (restore_warning rb) \<subseteq> set (snd (restoreCacheSync env paths pk opts))"
proof -
  from restoreCacheSync_shape [OF valid, of env opts] obtain rb' w
    where fst_body: "\<And>s. fst (restoreCacheSync_try env pk (paths_of paths) opts s) = rb'"
      and run: "restoreCacheSync env paths pk opts =
         (restore_result rb',
          [CoreDebug ''Resolved Keys:'', GetCacheEntrySync pk (paths_of paths)]
          @ w @ restore_warning rb')"
    by blast
  from fst_body [of s] body have "rb' = rb" by simp
  with run show "fst (restoreCacheSync env paths pk opts) = restore_result rb"
    and "set (restore_warning rb) \<subseteq> set (snd (restoreCacheSync env paths pk opts))"
    by auto
qed

lemma restoreCacheSync_invalid:
  assumes "\<not> (valid_paths paths \<and> valid_key pk)"
  shows "\<exists>msg. fst (restoreCacheSync env paths pk opts) = Inl (new_ValidationError msg)"
proof (cases "valid_paths paths")
  case False
  then show ?thesis
    unfolding restoreCacheSync_def run_def
    by (auto simp: valid_paths_def checkPaths_def)
next
  case True
  then have paths: "checkPaths paths s = (Inr (), s)" for s :: "event list \<times> unit"
    by (auto simp: valid_paths_def checkPaths_def)
  from True assms have "\<not> valid_key pk" by simp
  from checkKey_invalid [OF this] obtain msg
    where "checkKey pk ([CoreDebug ''Resolved Keys:''], ())
             = (Inl (new_ValidationError msg), ([CoreDebug ''Resolved Keys:''], ()))"
    by blast
  then show ?thesis
    unfolding restoreCacheSync_def run_def by (auto simp: paths)
qed

lemma filter_none: "list_all \<phi> w \<Longrightarrow> (\<And>ev. \<phi> ev \<Longrightarrow> \<not> P ev) \<Longrightarrow> filter P w = []"
  by (induction w) auto

lemma restore_event_calls:
  "restore_event cc ev \<Longrightarrow> \<not> is_lookup ev"
  by (cases ev) simp_all

lemma restore_warning_logs: "list_all is_log (restore_warning rb)"
  by (simp add: restore_warning_def split: sum.splits)

lemma unlink_log_logs: "list_all is_log (unlink_log env p)"
  by (simp add: unlink_log_def split: sum.splits)

lemma filter_logs: "list_all is_log w \<Longrightarrow> (\<And>ev. is_log ev \<Longrightarrow> \<not> P ev) \<Longrightarrow> filter P w = []"
  by (rule filter_none)

lemma is_log_not_lookup: "is_log ev \<Longrightarrow> \<not> is_lookup ev"
  by (cases ev) simp_all

lemma is_log_not_download: "is_log ev \<Longrightarrow> \<not> is_download ev"
  by (cases ev) simp_all

lemma calls_logs: "list_all is_log w \<Longrightarrow> calls w = []"
  unfolding calls_def by (induction w) auto

lemma calls_append: "calls (u @ w) = calls u @ calls w"
  by (simp add: calls_def)

section \<open>Evaluating concrete runs\<close>

lemmas concrete_defs =
  restoreCache_def restoreCacheSync_def saveCache_def saveCacheSync_def run_def
  checkPaths_def checkKey_def regex_test_def try_catch_finally_def finally_unlink_def
  restoreCache_try_def restoreCacheSync_try_def restoreCache_catch_def restoreCache_extract_def
  saveCache_try_def saveCacheSync_try_def saveCache_catch_def saveCache_archive_def
  runner_def store_lookup_def restore_keys_def paths_of_def default_none_def default_false_def
  truthy_def truthy_opt_def options_lookupOnly_def Let_def log_output_def decimal.simps
  round_MB_def baseDir_def quoted_def toTarPath_def error_toString_def new_Error_def
  new_ValidationError_def new_ReserveCacheError_def ValidationError_name_def
  ReserveCacheError_name_def

section \<open>The blocks of the save functions\<close>

lemma keeps_saveCache_archive:
  "keeps (save_event cc) (saveCache_archive env cc m folder ap cachePaths)"
  unfolding saveCache_archive_def Let_def
  by (auto intro!: keeps_rules)

lemma saveCache_try_sets:
  "sets (save_event cc) 1 (saveCache_try env paths key x cc m folder ap cachePaths)"
  unfolding saveCache_try_def
  by (auto intro!: sets_bind sets_set_local keeps_rules keeps_saveCache_archive)

lemma saveCacheSync_try_sets:
  "sets (\<lambda>ev. ev = SaveCacheSync key paths) 1 (saveCacheSync_try env key paths)"
  unfolding saveCacheSync_try_def
  by (auto intro!: sets_bind sets_set_local keeps_rules)

lemma sets_fst:
  assumes "sets \<phi> v p"
  shows "\<exists>r w. list_all \<phi> w
    \<and> (\<forall>tr l. p (tr, l) = (r, (tr @ w, case r of Inl e \<Rightarrow> l | Inr x \<Rightarrow> v)))
    \<and> (\<forall>s. fst (p s) = r)"
proof -
  from assms obtain r w where w: "list_all \<phi> w"
    and run_p: "\<And>tr l. p (tr, l) = (r, (tr @ w, case r of Inl e \<Rightarrow> l | Inr x \<Rightarrow> v))"
    unfolding sets_def by blast
  have "fst (p s) = r" for s
    using run_p [of "fst s" "snd s"] by simp
  with w run_p show ?thesis by blast
qed

section \<open>The save functions, from the outcome of their \<open>try\<close> block\<close>

lemma save_catch_apply:
  "saveCache_catch e (tr, l) =
     (if name e = ValidationError_name then (Inl e, (tr, l))
      else (Inr (), (tr @ save_log (Inl e), l)))"
  by (simp add: saveCache_catch_def save_log_def)

text \<open>The shape of every run of \<open>saveCache\<close> that reaches its \<open>try\<close> statement.\<close>

lemma saveCache_shape:
  assumes paths: "valid_paths paths" and key: "valid_key key"
    and resolve: "utils_resolvePaths env (paths_of paths) = Inr cachePaths"
      "cachePaths \<noteq> []"
    and tmp: "utils_createTempDirectory env = Inr folder"
  shows "\<exists>rb w. list_all (save_event (default_none cc)) w
     \<and> (\<forall>s. fst (saveCache_try env (paths_of paths) key (default_false x) (default_none cc)
                  (getCompressionMethod env (default_none cc)) folder
                  (path_join env folder
                     (getCacheFileName env (getCompressionMethod env (default_none cc))))
                  cachePaths s) = rb)
     \<and> saveCache env paths key options x cc =
         (save_result rb,
          [CoreInfo ''Saving Cache via archive.'',
           CoreInfo (JSON_stringify env (paths_of paths)),
           ResolvePaths (paths_of paths),
           CoreInfo ''Cache Paths:'',
           CoreInfo (JSON_stringify env cachePaths),
           CreateTempDirectory,
           CoreInfo (''Archive Path: '' @ path_join env folder
                       (getCacheFileName env (getCompressionMethod env (default_none cc))))]
          @ w @ save_log rb
          @ UnlinkFile (path_join env folder
                          (getCacheFileName env (getCompressionMethod env (default_none cc))))
          # unlink_log env (path_join env folder
                          (getCacheFileName env (getCompressionMethod env (default_none cc)))))"
proof -
  let ?m = "getCompressionMethod env (default_none cc)"
  let ?ap = "path_join env folder (getCacheFileName env ?m)"
  let ?body = "saveCache_try env (paths_of paths) key (default_false x) (default_none cc)
                 ?m folder ?ap cachePaths"
  from paths have check: "checkPaths paths s = (Inr (), s)" for s :: "event list \<times> int"
    by (auto simp: valid_paths_def checkPaths_def)
  from sets_fst [OF saveCache_try_sets [of "default_none cc" env "paths_of paths" key
      "default_false x" ?m folder ?ap cachePaths]]
  obtain rb w where w: "list_all (save_event (default_none cc)) w"
    and run_body: "\<And>tr l. ?body (tr, l) =
                     (rb, (tr @ w, case rb of Inl e \<Rightarrow> l | Inr u \<Rightarrow> 1))"
    and fst_body: "\<And>s. fst (?body s) = rb"
    by blast
  have "saveCache env paths key options x cc =
         (save_result rb,
          [CoreInfo ''Saving Cache via archive.'',
           CoreInfo (JSON_stringify env (paths_of paths)),
           ResolvePaths (paths_of paths),
           CoreInfo ''Cache Paths:'',
           CoreInfo (JSON_stringify env cachePaths),
           CreateTempDirectory,
           CoreInfo (''Archive Path: '' @ ?ap)]
          @ w @ save_log rb @ UnlinkFile ?ap # unlink_log env ?ap)"
    unfolding saveCache_def Let_def run_def
    by (simp add: check checkKey_valid [OF key] resolve tmp run_body try_catch_finally_def
          finally_unlink_apply save_catch_apply save_result_def save_log_def unlink_log_def
          split: sum.splits)
  with w fst_body show ?thesis by blast
qed

lemma saveCache_outcome:
  assumes paths: "valid_paths paths" and key: "valid_key key"
    and resolve: "utils_resolvePaths env (paths_of paths) = Inr cachePaths"
      "cachePaths \<noteq> []"
    and tmp: "utils_createTempDirectory env = Inr folder"
    and body: "fst (saveCache_try env (paths_of paths) key (default_false x) (default_none cc)
                  (getCompressionMethod env (default_none cc)) folder
                  (path_join env folder
                     (getCacheFileName env (getCompressionMethod env (default_none cc))))
                  cachePaths s) = rb"
  shows "fst (saveCache env paths key options x cc) = save_result rb"
    and "set (save_log rb) \<subseteq> set (snd (saveCache env paths key options x cc))"
    and "list_ex is_warning (snd (saveCache env paths key options x cc))
           \<longleftrightarrow> list_ex is_warning (save_log rb)"
proof -
  from saveCache_shape [OF paths key resolve tmp, of cc x options] obtain rb' w
    where w: "list_all (save_event (default_none cc)) w"
      and fst_body: "\<And>s. fst (saveCache_try env (paths_of paths) key (default_false x)
                  (default_none cc) (getCompressionMethod env (default_none cc)) folder
                  (path_join env folder
                     (getCacheFileName env (getCompressionMethod env (default_none cc))))
                  cachePaths s) = rb'"
      and run: "saveCache env paths key options x cc =
         (save_result rb',
          [CoreInfo ''Saving Cache via archive.'',
           CoreInfo (JSON_stringify env (paths_of paths)),
           ResolvePaths (paths_of paths),
           CoreInfo ''Cache Paths:'',
           CoreInfo (JSON_stringify env cachePaths),
           CreateTempDirectory,
           CoreInfo (''Archive Path: '' @ path_join env folder
                       (getCacheFileName env (getCompressionMethod env (default_none cc))))]
          @ w @ save_log rb'
          @ UnlinkFile (path_join env folder
                          (getCacheFileName env (getCompressionMethod env (default_none cc))))
          # unlink_log env (path_join env folder
                          (getCacheFileName env (getCompressionMethod env (default_none cc)))))"
    by blast
  from fst_body [of s] body have rb: "rb' = rb" by simp
  have "\<not> is_warning ev" if "save_event (default_none cc) ev" for ev
    using that by (cases ev) simp_all
  with w have no_w: "\<not> list_ex is_warning w"
    by (induction w) auto
  have no_u: "\<not> list_ex is_warning (unlink_log env p)" for p
    by (simp add: unlink_log_def split: sum.splits)
  from run rb show "fst (saveCache env paths key options x cc) = save_result rb"
    and "set (save_log rb) \<subseteq> set (snd (saveCache env paths key options x cc))"
    by auto
  from run rb no_w no_u
  show "list_ex is_warning (snd (saveCache env paths key options x cc))
           \<longleftrightarrow> list_ex is_warning (save_log rb)"
    by simp
qed

lemma saveCacheSync_shape:
  assumes paths: "valid_paths paths" and key: "valid_key key"
    and resolve: "utils_resolvePaths env (paths_of paths) = Inr cachePaths"
      "cachePaths \<noteq> []"
  shows "\<exists>rb. (\<forall>s. fst (saveCacheSync_try env key (paths_of paths) s) = rb)
     \<and> rb = cacheHttpClient_saveCacheSync env key (paths_of paths)
     \<and> saveCacheSync env paths key =
         (save_result rb,
          [CoreInfo ''Saving Cache via sync.'',
           ResolvePaths (paths_of paths),
           CoreDebug ''Cache Paths:'',
           CoreDebug (JSON_stringify env cachePaths),
           SaveCacheSync key (paths_of paths)]
          @ save_log rb)"
proof -
  let ?rb = "cacheHttpClient_saveCacheSync env key (paths_of paths)"
  from paths have check: "checkPaths paths s = (Inr (), s)" for s :: "event list \<times> int"
    by (auto simp: valid_paths_def checkPaths_def)
  have run_body: "saveCacheSync_try env key (paths_of paths) (tr, l) =
           (?rb, (tr @ [SaveCacheSync key (paths_of paths)],
                  case ?rb of Inl e \<Rightarrow> l | Inr u \<Rightarrow> 1))" for tr and l :: int
    by (simp add: saveCacheSync_try_def split: sum.splits)
  have fst_body: "fst (saveCacheSync_try env key (paths_of paths) s) = ?rb" for s
    using run_body [of "fst s" "snd s"] by simp
  have "saveCacheSync env paths key =
         (save_result ?rb,
          [CoreInfo ''Saving Cache via sync.'',
           ResolvePaths (paths_of paths),
           CoreDebug ''Cache Paths:'',
           CoreDebug (JSON_stringify env cachePaths),
           SaveCacheSync key (paths_of paths)]
          @ save_log ?rb)"
    unfolding saveCacheSync_def run_def
    by (simp add: check checkKey_valid [OF key] resolve run_body save_catch_apply
          save_result_def save_log_def split: sum.splits)
  with fst_body show ?thesis by blast
qed

section \<open>Events that a block is sure to emit\<close>

lemma passes_call_next:
  "outcome = Inr x \<Longrightarrow> passes ev (f x) \<Longrightarrow> passes ev (bind (call ev' outcome) f)"
  unfolding passes_def by auto

lemma passes_here:
  assumes "\<And>x. emits \<phi> (f x)"
  shows "passes ev (bind (call ev outcome) f)"
proof -
  from emits_first [of \<phi> f ev outcome, OF assms] obtain r w
    where run_p: "\<And>tr l. \<exists>l'. bind (call ev outcome) f (tr, l) = (r, (tr @ ev # w, l'))"
    by blast
  have "ev \<in> set (fst (snd (bind (call ev outcome) f s)))" for s
  proof -
    from run_p [of "fst s" "snd s"] obtain l'
      where "bind (call ev outcome) f s = (r, (fst s @ ev # w, l'))" by auto
    then show ?thesis by simp
  qed
  then show ?thesis unfolding passes_def by blast
qed

lemma passes_set_get:
  "passes ev (f v) \<Longrightarrow> passes ev (bind (set_local v) (\<lambda>u. bind get_local f))"
  unfolding passes_def by auto

lemma passes_core_debug: "passes ev (f ()) \<Longrightarrow> passes ev (bind (core_debug msg) f)"
  unfolding passes_def by auto

text \<open>A restore that finds an entry and creates its temporary directory calls the download
  with the path it leaves in \<open>archivePath\<close>.\<close>

lemma restoreCache_try_passes:
  assumes hit: "cacheHttpClient_getCacheEntry env keys ps m x = Inr (Some entry)"
    and loc: "archiveLocation entry = Some loc" "truthy loc" "\<not> options_lookupOnly opts"
    and tmp: "utils_createTempDirectory env = Inr folder"
  shows "passes (DownloadCache loc (path_join env folder (getCacheFileName env m)) opts)
           (restoreCache_try env keys ps opts x cc m)"
  unfolding restoreCache_try_def
  apply (rule passes_call_next [OF hit])
  apply (simp only: option.case loc if_False if_True not_True_eq_False not_False_eq_True)
  apply (rule passes_call_next [OF tmp])
  apply (rule passes_set_get)
  apply (rule passes_core_debug)
  apply (rule passes_here [where \<phi> = "restore_event cc"])
  apply (auto intro!: emits_rules keeps_restoreCache_extract [THEN emits_keeps])
  done

text \<open>The block of \<open>saveCache\<close> once the archive is built and measured: the outcome of the
  upload.\<close>

lemma saveCache_try_upload:
  assumes archive: "fst (saveCache_archive env cc m folder ap cachePaths
                           (s :: event list \<times> int)) = Inr ()"
    and size: "utils_getArchiveFileSizeInBytes env ap = Inr n"
  shows "fst (saveCache_try env paths key x cc m folder ap cachePaths s') =
           cacheHttpClient_saveCache env key paths ap m x n"
proof -
  from keeps_saveCache_archive [of cc env m folder ap cachePaths] obtain ra w
    where run_a: "\<And>tr (l :: int). saveCache_archive env cc m folder ap cachePaths (tr, l)
                    = (ra, (tr @ w, l))"
    unfolding keeps_def by blast
  from run_a [of "fst s" "snd s"] archive have "ra = Inr ()" by simp
  with run_a [of "fst s'" "snd s'"]
  have "saveCache_archive env cc m folder ap cachePaths s' = (Inr (), (fst s' @ w, snd s'))"
    by simp
  then show ?thesis
    by (simp add: saveCache_try_def size split: sum.splits)
qed


section \<open>Internal codec or external archiver\<close>













section \<open>Errors of a restore\<close>

text \<open>
  C2. On input that passes validation, \<open>restoreCache\<close> and \<open>restoreCacheSync\<close> throw an error
  only if their \<open>try\<close> block (lookup, download, extraction) threw that very error and its
  name is \<open>ValidationError\<close>, which is how the code tells a \<open>ValidationError\<close>. Every other
  error thrown in the \<open>try\<close> block is caught: the warning \<open>Failed to restore: ...\<close> is logged
  and the function returns \<open>undefined\<close>, as on a cache miss.
\<close>

theorem restoreCache_swallows:
  "(valid_restore paths (restore_keys primaryKey restoreKeys) \<longrightarrow>
      (\<forall>e. fst (restoreCache env paths primaryKey restoreKeys options enableCrossOsArchive
                  customCompression) = Inl e
          \<longrightarrow> name e = ValidationError_name
              \<and> (\<forall>s. fst (restoreCache_try env (restore_keys primaryKey restoreKeys)
                           (paths_of paths) options (default_false enableCrossOsArchive)
                           (default_none customCompression)
                           (getCompressionMethod env (default_none customCompression)) s)
                     = Inl e))
      \<and> (\<forall>s e. fst (restoreCache_try env (restore_keys primaryKey restoreKeys)
                      (paths_of paths) options (default_false enableCrossOsArchive)
                      (default_none customCompression)
                      (getCompressionMethod env (default_none customCompression)) s) = Inl e
               \<and> name e \<noteq> ValidationError_name
          \<longrightarrow> fst (restoreCache env paths primaryKey restoreKeys options enableCrossOsArchive
                     customCompression) = Inr None
              \<and> CoreWarning (''Failed to restore: '' @ message e)
                  \<in> set (snd (restoreCache env paths primaryKey restoreKeys options
                               enableCrossOsArchive customCompression))))
   \<and> (valid_paths paths \<and> valid_key primaryKey \<longrightarrow>
      (\<forall>e. fst (restoreCacheSync env paths primaryKey options) = Inl e
          \<longrightarrow> name e = ValidationError_name
              \<and> (\<forall>s. fst (restoreCacheSync_try env primaryKey (paths_of paths) options s)
                     = Inl e))
      \<and> (\<forall>s e. fst (restoreCacheSync_try env primaryKey (paths_of paths) options s) = Inl e
               \<and> name e \<noteq> ValidationError_name
          \<longrightarrow> fst (restoreCacheSync env paths primaryKey options) = Inr None
              \<and> CoreWarning (''Failed to restore: '' @ message e)
                  \<in> set (snd (restoreCacheSync env paths primaryKey options))))"
proof -
  let ?body = "restoreCache_try env (restore_keys primaryKey restoreKeys) (paths_of paths) options
                 (default_false enableCrossOsArchive) (default_none customCompression)
                 (getCompressionMethod env (default_none customCompression))"
  let ?r = "restoreCache env paths primaryKey restoreKeys options enableCrossOsArchive
              customCompression"
  let ?body' = "restoreCacheSync_try env primaryKey (paths_of paths) options"
  let ?r' = "restoreCacheSync env paths primaryKey options"
  have result: "restore_result rb = Inl e \<Longrightarrow> rb = Inl e \<and> name e = ValidationError_name"
    for rb e
    by (auto simp: restore_result_def split: sum.splits completion.splits if_splits)
  have caught: "restore_result (Inl e) = Inr None
      \<and> CoreWarning (''Failed to restore: '' @ message e)
          \<in> set (restore_warning (Inl e :: js_error + string option completion))"
    if "name e \<noteq> ValidationError_name" for e
    using that by (simp add: restore_result_def restore_warning_def)
  have thrown: "name e = ValidationError_name \<and> (\<forall>s. fst (?body s) = Inl e)"
    if valid: "valid_restore paths (restore_keys primaryKey restoreKeys)"
      and "fst ?r = Inl e" for e
  proof -
    have "restore_result (fst (?body s)) = Inl e" for s
      using restoreCache_outcome(1) [OF valid refl, of env options enableCrossOsArchive
          customCompression s] that(2) by simp
    from result [OF this] show ?thesis by blast
  qed
  have swallowed: "fst ?r = Inr None
      \<and> CoreWarning (''Failed to restore: '' @ message e) \<in> set (snd ?r)"
    if valid: "valid_restore paths (restore_keys primaryKey restoreKeys)"
      and body: "fst (?body s) = Inl e" and e: "name e \<noteq> ValidationError_name" for s e
    using restoreCache_outcome [OF valid body] caught [OF e] by auto
  have thrown': "name e = ValidationError_name \<and> (\<forall>s. fst (?body' s) = Inl e)"
    if valid: "valid_paths paths" "valid_key primaryKey"
      and "fst ?r' = Inl e" for e
  proof -
    have "restore_result (fst (?body' s)) = Inl e" for s
      using restoreCacheSync_outcome(1) [OF valid refl, of env options s] that(3) by simp
    from result [OF this] show ?thesis by blast
  qed
  have swallowed': "fst ?r' = Inr None
      \<and> CoreWarning (''Failed to restore: '' @ message e) \<in> set (snd ?r')"
    if valid: "valid_paths paths" "valid_key primaryKey"
      and body: "fst (?body' s) = Inl e" and e: "name e \<noteq> ValidationError_name" for s e
    using restoreCacheSync_outcome [OF valid body] caught [OF e] by auto
  from thrown swallowed thrown' swallowed' show ?thesis by blast
qed

theorem restoreCache_swallows_witness:
  "valid_restore (Some [''./dist'']) (restore_keys ''build-123'' None)
   \<and> cacheHttpClient_downloadCache runner_download_fails ''https://cache/build-123''
       ''/tmp/a/cache.tgz'' None = Inl (new_Error ''ECONNRESET'')
   \<and> fst (restoreCache runner_download_fails (Some [''./dist'']) ''build-123'' None None None None)
       = Inr None
   \<and> CoreWarning ''Failed to restore: ECONNRESET''
       \<in> set (snd (restoreCache runner_download_fails (Some [''./dist'']) ''build-123'' None None
                     None None))
   \<and> fst (restoreCacheSync (runner_download_fails
             \<lparr>cacheHttpClient_downloadCacheSync := (\<lambda>loc paths. Inl (new_Error ''ECONNRESET''))\<rparr>)
          (Some [''./dist'']) ''build-123'' None) = Inr None"
proof -
  let ?paths = "Some [''./dist'']"
  let ?e = "new_Error ''ECONNRESET''"
  have valid: "valid_restore ?paths (restore_keys ''build-123'' None)"
    and paths: "valid_paths ?paths" and key: "valid_key ''build-123''"
    by (simp_all add: valid_restore_def valid_paths_def restore_keys_def valid_key_def)
  have e: "name ?e \<noteq> ValidationError_name" "message ?e = ''ECONNRESET''"
    by (simp_all add: new_Error_def ValidationError_name_def)
  have download: "cacheHttpClient_downloadCache runner_download_fails ''https://cache/build-123''
       ''/tmp/a/cache.tgz'' None = Inl ?e"
    by (simp add: runner_download_fails_def runner_def)
  have archive: "fst (restoreCache env ?paths ''build-123'' None None None None) = Inr None
      \<and> CoreWarning (''Failed to restore: '' @ message ?e)
          \<in> set (snd (restoreCache env ?paths ''build-123'' None None None None))"
    if env: "env = runner_download_fails" for env
  proof -
    have body: "fst (restoreCache_try env (restore_keys ''build-123'' None) (paths_of ?paths) None
                  (default_false None) (default_none None)
                  (getCompressionMethod env (default_none None)) ([], [])) = Inl ?e"
      unfolding env runner_download_fails_def by (simp add: concrete_defs)
    from restoreCache_swallows [where env = env and paths = ?paths
        and primaryKey = "''build-123''" and restoreKeys = None and options = None
        and enableCrossOsArchive = None and customCompression = None] valid body e(1)
    show ?thesis by blast
  qed
  have sync: "fst (restoreCacheSync env ?paths ''build-123'' None) = Inr None"
    if env: "env = runner_download_fails
             \<lparr>cacheHttpClient_downloadCacheSync := (\<lambda>loc paths. Inl (new_Error ''ECONNRESET''))\<rparr>"
    for env
  proof -
    have body: "fst (restoreCacheSync_try env ''build-123'' (paths_of ?paths) None ([], ()))
                  = Inl ?e"
      unfolding env runner_download_fails_def by (simp add: concrete_defs)
    from restoreCache_swallows [where env = env and paths = ?paths
        and primaryKey = "''build-123''" and options = None] paths key body e(1)
    show ?thesis by blast
  qed
  from valid download archive [OF refl] sync [OF refl] e(2) show ?thesis by simp
qed

section \<open>The result of a save\<close>

text \<open>
  C3. Take a save that passes validation and path resolution (and, for \<open>saveCache\<close>, has
  its temporary directory). For \<open>saveCache\<close>: when the archive creation completes, the archive
  is measured and the upload completes, the result is the \<open>CacheId\<close> \<open>1\<close>; when the upload
  instead throws an error whose name is not \<open>ValidationError\<close> (a \<open>ReserveCacheError\<close> or any
  other), and more generally when the \<open>try\<close> block throws such an error, nothing is thrown
  and the result is \<open>-1\<close>. For \<open>saveCacheSync\<close>: the result is \<open>1\<close> when the upload completes
  and \<open>-1\<close> when it throws an error whose name is not \<open>ValidationError\<close>.
\<close>

theorem saveCache_result:
  "(valid_paths paths \<and> valid_key key
      \<and> utils_resolvePaths env (paths_of paths) = Inr cachePaths \<and> cachePaths \<noteq> []
      \<and> utils_createTempDirectory env = Inr archiveFolder
    \<longrightarrow>
      (\<forall>(s :: event list \<times> int) archiveFileSize.
          fst (saveCache_archive env (default_none customCompression)
                 (getCompressionMethod env (default_none customCompression)) archiveFolder
                 (path_join env archiveFolder
                    (getCacheFileName env
                       (getCompressionMethod env (default_none customCompression))))
                 cachePaths s) = Inr ()
          \<and> utils_getArchiveFileSizeInBytes env
               (path_join env archiveFolder
                  (getCacheFileName env
                     (getCompressionMethod env (default_none customCompression))))
               = Inr archiveFileSize
          \<longrightarrow>
            (cacheHttpClient_saveCache env key (paths_of paths)
               (path_join env archiveFolder
                  (getCacheFileName env
                     (getCompressionMethod env (default_none customCompression))))
               (getCompressionMethod env (default_none customCompression))
               (default_false enableCrossOsArchive) archiveFileSize = Inr ()
             \<longrightarrow> fst (saveCache env paths key options enableCrossOsArchive customCompression)
                   = Inr 1)
          \<and> (\<forall>e. cacheHttpClient_saveCache env key (paths_of paths)
                    (path_join env archiveFolder
                       (getCacheFileName env
                          (getCompressionMethod env (default_none customCompression))))
                    (getCompressionMethod env (default_none customCompression))
                    (default_false enableCrossOsArchive) archiveFileSize = Inl e
                  \<and> name e \<noteq> ValidationError_name
                \<longrightarrow> fst (saveCache env paths key options enableCrossOsArchive
                           customCompression) = Inr (- 1)))
      \<and> (\<forall>s e.
            fst (saveCache_try env (paths_of paths) key (default_false enableCrossOsArchive)
                   (default_none customCompression)
                   (getCompressionMethod env (default_none customCompression)) archiveFolder
                   (path_join env archiveFolder
                      (getCacheFileName env
                         (getCompressionMethod env (default_none customCompression))))
                   cachePaths s) = Inl e
            \<and> name e \<noteq> ValidationError_name
          \<longrightarrow> fst (saveCache env paths key options enableCrossOsArchive customCompression)
                = Inr (- 1)))
   \<and> (valid_paths paths \<and> valid_key key
      \<and> utils_resolvePaths env (paths_of paths) = Inr cachePaths \<and> cachePaths \<noteq> []
    \<longrightarrow>
      (cacheHttpClient_saveCacheSync env key (paths_of paths) = Inr ()
        \<longrightarrow> fst (saveCacheSync env paths key) = Inr 1)
      \<and> (\<forall>e. cacheHttpClient_saveCacheSync env key (paths_of paths) = Inl e
               \<and> name e \<noteq> ValidationError_name
             \<longrightarrow> fst (saveCacheSync env paths key) = Inr (- 1)))"
proof -
  let ?cc = "default_none customCompression"
  let ?m = "getCompressionMethod env ?cc"
  let ?x = "default_false enableCrossOsArchive"
  let ?ap = "path_join env archiveFolder (getCacheFileName env ?m)"
  let ?r = "saveCache env paths key options enableCrossOsArchive customCompression"
  have thrown: "fst ?r = Inr (- 1)"
    if reach: "valid_paths paths" "valid_key key"
      "utils_resolvePaths env (paths_of paths) = Inr cachePaths" "cachePaths \<noteq> []"
      "utils_createTempDirectory env = Inr archiveFolder"
      and body: "fst (saveCache_try env (paths_of paths) key ?x ?cc ?m archiveFolder ?ap
                        cachePaths s) = Inl e"
      and e: "name e \<noteq> ValidationError_name" for s e
    using saveCache_outcome(1) [OF reach body, of options] e by (simp add: save_result_def)
  have uploaded: "fst ?r = Inr 1"
    if reach: "valid_paths paths" "valid_key key"
      "utils_resolvePaths env (paths_of paths) = Inr cachePaths" "cachePaths \<noteq> []"
      "utils_createTempDirectory env = Inr archiveFolder"
      and archive: "fst (saveCache_archive env ?cc ?m archiveFolder ?ap cachePaths s) = Inr ()"
      and size: "utils_getArchiveFileSizeInBytes env ?ap = Inr n"
      and upload: "cacheHttpClient_saveCache env key (paths_of paths) ?ap ?m ?x n = Inr ()"
    for s :: "event list \<times> int" and n
  proof -
    have "fst (saveCache_try env (paths_of paths) key ?x ?cc ?m archiveFolder ?ap cachePaths s)
            = Inr ()"
      using saveCache_try_upload [OF archive size, of "paths_of paths" key ?x s] upload by simp
    from saveCache_outcome(1) [OF reach this, of options] show ?thesis
      by (simp add: save_result_def)
  qed
  have refused: "fst ?r = Inr (- 1)"
    if reach: "valid_paths paths" "valid_key key"
      "utils_resolvePaths env (paths_of paths) = Inr cachePaths" "cachePaths \<noteq> []"
      "utils_createTempDirectory env = Inr archiveFolder"
      and archive: "fst (saveCache_archive env ?cc ?m archiveFolder ?ap cachePaths s) = Inr ()"
      and size: "utils_getArchiveFileSizeInBytes env ?ap = Inr n"
      and upload: "cacheHttpClient_saveCache env key (paths_of paths) ?ap ?m ?x n = Inl e"
      and e: "name e \<noteq> ValidationError_name"
    for s :: "event list \<times> int" and n e
  proof -
    have "fst (saveCache_try env (paths_of paths) key ?x ?cc ?m archiveFolder ?ap cachePaths s)
            = Inl e"
      using saveCache_try_upload [OF archive size, of "paths_of paths" key ?x s] upload by simp
    from thrown [OF reach this e] show ?thesis .
  qed
  have sync: "fst (saveCacheSync env paths key)
                = save_result (cacheHttpClient_saveCacheSync env key (paths_of paths))"
    if reach: "valid_paths paths" "valid_key key"
      "utils_resolvePaths env (paths_of paths) = Inr cachePaths" "cachePaths \<noteq> []"
    using saveCacheSync_shape [OF reach] by auto
  have sync_ok: "fst (saveCacheSync env paths key) = Inr 1"
    if "valid_paths paths" "valid_key key"
      "utils_resolvePaths env (paths_of paths) = Inr cachePaths" "cachePaths \<noteq> []"
      "cacheHttpClient_saveCacheSync env key (paths_of paths) = Inr ()"
    using sync [OF that(1-4)] that(5) by (simp add: save_result_def)
  have sync_thrown: "fst (saveCacheSync env paths key) = Inr (- 1)"
    if "valid_paths paths" "valid_key key"
      "utils_resolvePaths env (paths_of paths) = Inr cachePaths" "cachePaths \<noteq> []"
      "cacheHttpClient_saveCacheSync env key (paths_of paths) = Inl e"
      "name e \<noteq> ValidationError_name" for e
    using sync [OF that(1-4)] that(5,6) by (simp add: save_result_def)
  from thrown uploaded refused sync_ok sync_thrown show ?thesis by blast
qed
theorem saveCache_result_witness:
  "fst (saveCache (runner ''linux'' []) (Some [''./dist'']) ''build-123'' None None None) = Inr 1
   \<and> fst (saveCache runner_reserved (Some [''./dist'']) ''build-123'' None None None) = Inr (- 1)
   \<and> fst (saveCacheSync (runner ''linux'' []) (Some [''./dist'']) ''build-123'') = Inr 1
   \<and> fst (saveCacheSync runner_reserved (Some [''./dist'']) ''build-123'') = Inr (- 1)
   \<and> cacheHttpClient_saveCache runner_reserved ''build-123'' [''./dist''] ''/tmp/a/cache.tgz''
       ''gzip'' False 10 = Inl (new_ReserveCacheError ''already reserved'')
   \<and> name (new_ReserveCacheError ''already reserved'') \<noteq> ValidationError_name"
proof -
  let ?paths = "Some [''./dist'']"
  have paths: "valid_paths ?paths" by (simp add: valid_paths_def)
  have key: "valid_key ''build-123''" by (simp add: valid_key_def)
  have name: "name (new_ReserveCacheError ''already reserved'') \<noteq> ValidationError_name"
    by (simp add: new_ReserveCacheError_def ValidationError_name_def)
  have reserved: "cacheHttpClient_saveCache runner_reserved ''build-123'' [''./dist'']
       ''/tmp/a/cache.tgz'' ''gzip'' False 10 = Inl (new_ReserveCacheError ''already reserved'')"
    by (simp add: runner_reserved_def runner_def)
  have saved: "fst (saveCache env ?paths ''build-123'' None None None) = Inr 1"
    and saved_sync: "fst (saveCacheSync env ?paths ''build-123'') = Inr 1"
    if env: "env = runner ''linux'' []" for env
  proof -
    let ?m = "getCompressionMethod env (default_none None)"
    let ?ap = "path_join env ''/tmp/a'' (getCacheFileName env ?m)"
    have resolve: "utils_resolvePaths env (paths_of ?paths) = Inr [''./dist'']"
      "[''./dist''] \<noteq> ([] :: string list)"
      and tmp: "utils_createTempDirectory env = Inr ''/tmp/a''"
      and archive: "fst (saveCache_archive env (default_none None) ?m ''/tmp/a'' ?ap [''./dist'']
                      ([], 0 :: int)) = Inr ()"
      and size: "utils_getArchiveFileSizeInBytes env ?ap = Inr 10"
      and upload: "cacheHttpClient_saveCache env ''build-123'' (paths_of ?paths) ?ap ?m
                     (default_false None) 10 = Inr ()"
      and upload_sync: "cacheHttpClient_saveCacheSync env ''build-123'' (paths_of ?paths) = Inr ()"
      unfolding env by (simp_all add: concrete_defs)
    note inst = saveCache_result [where env = env and paths = ?paths and key = "''build-123''"
        and cachePaths = "[''./dist'']" and archiveFolder = "''/tmp/a''" and options = None
        and enableCrossOsArchive = None and customCompression = None]
    from inst paths key resolve tmp archive size upload
    show "fst (saveCache env ?paths ''build-123'' None None None) = Inr 1" by blast
    from inst paths key resolve upload_sync
    show "fst (saveCacheSync env ?paths ''build-123'') = Inr 1" by blast
  qed
  have refused: "fst (saveCache env ?paths ''build-123'' None None None) = Inr (- 1)"
    and refused_sync: "fst (saveCacheSync env ?paths ''build-123'') = Inr (- 1)"
    if env: "env = runner_reserved" for env
  proof -
    let ?m = "getCompressionMethod env (default_none None)"
    let ?ap = "path_join env ''/tmp/a'' (getCacheFileName env ?m)"
    have resolve: "utils_resolvePaths env (paths_of ?paths) = Inr [''./dist'']"
      "[''./dist''] \<noteq> ([] :: string list)"
      and tmp: "utils_createTempDirectory env = Inr ''/tmp/a''"
      and archive: "fst (saveCache_archive env (default_none None) ?m ''/tmp/a'' ?ap [''./dist'']
                      ([], 0 :: int)) = Inr ()"
      and size: "utils_getArchiveFileSizeInBytes env ?ap = Inr 10"
      and upload: "cacheHttpClient_saveCache env ''build-123'' (paths_of ?paths) ?ap ?m
                     (default_false None) 10 = Inl (new_ReserveCacheError ''already reserved'')"
      and upload_sync: "cacheHttpClient_saveCacheSync env ''build-123'' (paths_of ?paths)
                     = Inl (new_ReserveCacheError ''already reserved'')"
      unfolding env runner_reserved_def by (simp_all add: concrete_defs)
    note inst = saveCache_result [where env = env and paths = ?paths and key = "''build-123''"
        and cachePaths = "[''./dist'']" and archiveFolder = "''/tmp/a''" and options = None
        and enableCrossOsArchive = None and customCompression = None]
    from inst paths key resolve tmp archive size upload name
    show "fst (saveCache env ?paths ''build-123'' None None None) = Inr (- 1)" by blast
    from inst paths key resolve upload_sync name
    show "fst (saveCacheSync env ?paths ''build-123'') = Inr (- 1)" by blast
  qed
  from saved [OF refl] saved_sync [OF refl] refused [OF refl] refused_sync [OF refl] reserved name
  show ?thesis by blast
qed

section \<open>The archive is deleted on every exit\<close>

lemma restoreCache_try_unlink:
  "restoreCache_try (env\<lparr>utils_unlinkFile := unlink\<rparr>) keys ps opts x cc m =
   restoreCache_try env keys ps opts x cc m"
  by (simp add: restoreCache_try_def restoreCache_extract_def baseDir_def
        cong: option.case_cong if_cong)

lemma saveCache_try_unlink:
  "saveCache_try (env\<lparr>utils_unlinkFile := unlink\<rparr>) ps key x cc m folder ap cachePaths =
   saveCache_try env ps key x cc m folder ap cachePaths"
  by (simp add: saveCache_try_def saveCache_archive_def baseDir_def
        cong: option.case_cong if_cong)

text \<open>
  C4. A restore that finds an entry, is not lookup-only and has its temporary directory
  downloads to the archive path, and a save that passes validation and path resolution and
  has its temporary directory builds the archive there. However the \<open>try\<close> block ends
  (completed, error swallowed, error thrown again), the trace of such a run ends with the
  deletion of that archive path, followed only by the debug log of the deletion's failure
  when it fails; for the restore the download stands before it. The outcome of the deletion
  never reaches the caller: the result is the same whatever \<open>unlinkFile\<close> does.
\<close>

theorem archive_deleted:
  "(valid_restore paths (restore_keys primaryKey restoreKeys)
      \<and> cacheHttpClient_getCacheEntry env (restore_keys primaryKey restoreKeys) (paths_of paths)
          (getCompressionMethod env (default_none customCompression))
          (default_false enableCrossOsArchive) = Inr (Some entry)
      \<and> archiveLocation entry = Some location \<and> truthy location
      \<and> \<not> options_lookupOnly options
      \<and> utils_createTempDirectory env = Inr folder
    \<longrightarrow>
      (\<exists>pre. snd (restoreCache env paths primaryKey restoreKeys options enableCrossOsArchive
                     customCompression)
              = pre
                @ UnlinkFile (path_join env folder
                    (getCacheFileName env
                       (getCompressionMethod env (default_none customCompression))))
                # (case utils_unlinkFile env
                          (path_join env folder
                             (getCacheFileName env
                                (getCompressionMethod env (default_none customCompression)))) of
                     Inl e \<Rightarrow> [CoreDebug (''Failed to delete archive: '' @ error_toString e)]
                   | Inr u \<Rightarrow> [])
            \<and> DownloadCache location
                 (path_join env folder
                    (getCacheFileName env
                       (getCompressionMethod env (default_none customCompression))))
                 options \<in> set pre)
      \<and> (\<forall>unlink. fst (restoreCache (env\<lparr>utils_unlinkFile := unlink\<rparr>) paths primaryKey
                           restoreKeys options enableCrossOsArchive customCompression)
                  = fst (restoreCache env paths primaryKey restoreKeys options
                           enableCrossOsArchive customCompression)))
   \<and> (valid_paths paths \<and> valid_key key
      \<and> utils_resolvePaths env (paths_of paths) = Inr cachePaths \<and> cachePaths \<noteq> []
      \<and> utils_createTempDirectory env = Inr folder
    \<longrightarrow>
      (\<exists>pre. snd (saveCache env paths key uploadOptions enableCrossOsArchive customCompression)
              = pre
                @ UnlinkFile (path_join env folder
                    (getCacheFileName env
                       (getCompressionMethod env (default_none customCompression))))
                # (case utils_unlinkFile env
                          (path_join env folder
                             (getCacheFileName env
                                (getCompressionMethod env (default_none customCompression)))) of
                     Inl e \<Rightarrow> [CoreDebug (''Failed to delete archive: '' @ error_toString e)]
                   | Inr u \<Rightarrow> []))
      \<and> (\<forall>unlink. fst (saveCache (env\<lparr>utils_unlinkFile := unlink\<rparr>) paths key uploadOptions
                           enableCrossOsArchive customCompression)
                  = fst (saveCache env paths key uploadOptions enableCrossOsArchive
                           customCompression)))"
proof -
  let ?keys = "restore_keys primaryKey restoreKeys"
  let ?cc = "default_none customCompression"
  let ?m = "getCompressionMethod env ?cc"
  let ?x = "default_false enableCrossOsArchive"
  let ?ap = "path_join env folder (getCacheFileName env ?m)"
  let ?body = "restoreCache_try env ?keys (paths_of paths) options ?x ?cc ?m"
  let ?r = "restoreCache env paths primaryKey restoreKeys options enableCrossOsArchive
              customCompression"
  let ?rs = "saveCache env paths key uploadOptions enableCrossOsArchive customCompression"
  let ?tr0 = "[CoreDebug ''Resolved Keys:'', CoreDebug (JSON_stringify env ?keys)]"
  have restore_trace:
    "\<exists>pre. snd ?r = pre @ UnlinkFile ?ap # unlink_log env ?ap
          \<and> DownloadCache location ?ap options \<in> set pre"
    if valid: "valid_restore paths ?keys"
      and hit: "cacheHttpClient_getCacheEntry env ?keys (paths_of paths) ?m ?x = Inr (Some entry)"
      and loc: "archiveLocation entry = Some location" "truthy location"
        "\<not> options_lookupOnly options"
      and tmp: "utils_createTempDirectory env = Inr folder"
  proof -
    obtain rb tr1 l1 where body: "?body (?tr0, []) = (rb, (tr1, l1))"
      by (cases "?body (?tr0, [])") auto
    from restoreCache_try_leaves [OF hit loc tmp, of ?cc] body have l1: "l1 = ?ap"
      unfolding leaves_def by (metis snd_conv)
    from restoreCache_try_passes [OF hit loc tmp, of ?cc] body
    have download: "DownloadCache location ?ap options \<in> set tr1"
      unfolding passes_def by (metis fst_conv snd_conv)
    from restoreCache_run [OF valid body] l1
    have "snd ?r = (tr1 @ restore_warning rb) @ UnlinkFile ?ap # unlink_log env ?ap"
      by simp
    moreover from download
    have "DownloadCache location ?ap options \<in> set (tr1 @ restore_warning rb)" by simp
    ultimately show ?thesis by blast
  qed
  have restore_result: "fst (restoreCache (env\<lparr>utils_unlinkFile := unlink\<rparr>) paths primaryKey
                           restoreKeys options enableCrossOsArchive customCompression) = fst ?r"
    if valid: "valid_restore paths ?keys" for unlink
  proof -
    let ?env' = "env\<lparr>utils_unlinkFile := unlink\<rparr>"
    have "fst (restoreCache_try ?env' ?keys (paths_of paths) options ?x ?cc
                 (getCompressionMethod ?env' ?cc) ([], [])) = fst (?body ([], []))"
      by (simp add: restoreCache_try_unlink)
    from restoreCache_outcome(1) [OF valid this]
      restoreCache_outcome(1) [OF valid refl, where env = env and opts = options
        and x = enableCrossOsArchive and cc = customCompression and s = "([], [])"]
    show ?thesis by simp
  qed
  have save_trace: "\<exists>pre. snd ?rs = pre @ UnlinkFile ?ap # unlink_log env ?ap"
    if reach: "valid_paths paths" "valid_key key"
      "utils_resolvePaths env (paths_of paths) = Inr cachePaths" "cachePaths \<noteq> []"
      "utils_createTempDirectory env = Inr folder"
  proof -
    from saveCache_shape [OF reach, of customCompression enableCrossOsArchive uploadOptions]
    obtain rb w where "snd ?rs =
          ([CoreInfo ''Saving Cache via archive.'',
            CoreInfo (JSON_stringify env (paths_of paths)),
            ResolvePaths (paths_of paths),
            CoreInfo ''Cache Paths:'',
            CoreInfo (JSON_stringify env cachePaths),
            CreateTempDirectory,
            CoreInfo (''Archive Path: '' @ ?ap)]
           @ w @ save_log rb) @ UnlinkFile ?ap # unlink_log env ?ap"
      by auto
    then show ?thesis by blast
  qed
  have save_result: "fst (saveCache (env\<lparr>utils_unlinkFile := unlink\<rparr>) paths key uploadOptions
                           enableCrossOsArchive customCompression) = fst ?rs"
    if reach: "valid_paths paths" "valid_key key"
      "utils_resolvePaths env (paths_of paths) = Inr cachePaths" "cachePaths \<noteq> []"
      "utils_createTempDirectory env = Inr folder" for unlink
  proof -
    let ?env' = "env\<lparr>utils_unlinkFile := unlink\<rparr>"
    have reach': "utils_resolvePaths ?env' (paths_of paths) = Inr cachePaths"
      "utils_createTempDirectory ?env' = Inr folder"
      using reach by simp_all
    have "fst (saveCache_try ?env' (paths_of paths) key ?x ?cc (getCompressionMethod ?env' ?cc)
                 folder
                 (path_join ?env' folder
                    (getCacheFileName ?env' (getCompressionMethod ?env' ?cc)))
                 cachePaths ([], 0))
          = fst (saveCache_try env (paths_of paths) key ?x ?cc ?m folder ?ap cachePaths ([], 0))"
      by (simp add: saveCache_try_unlink)
    from saveCache_outcome(1) [OF reach(1,2) reach'(1) reach(4) reach'(2) this,
        where options = uploadOptions]
      saveCache_outcome(1) [OF reach refl, where options = uploadOptions
        and x = enableCrossOsArchive and cc = customCompression and s = "([], 0)"]
    show ?thesis by simp
  qed
  from restore_trace restore_result save_trace save_result show ?thesis
    unfolding unlink_log_def by blast
qed
theorem archive_deleted_witness:
  "(\<exists>pre. snd (restoreCache runner_unlink_fails (Some [''./dist'']) ''build-123'' None None None
                  None)
           = pre @ [UnlinkFile ''/tmp/a/cache.tgz'',
                    CoreDebug ''Failed to delete archive: Error: EPERM'']
         \<and> DownloadCache ''https://cache/build-123'' ''/tmp/a/cache.tgz'' None \<in> set pre)
   \<and> fst (restoreCache runner_unlink_fails (Some [''./dist'']) ''build-123'' None None None None)
       = Inr (Some ''build-123'')
   \<and> (\<exists>pre. snd (saveCache runner_unlink_fails (Some [''./dist'']) ''build-123'' None None None)
           = pre @ [UnlinkFile ''/tmp/a/cache.tgz'',
                    CoreDebug ''Failed to delete archive: Error: EPERM''])
   \<and> fst (saveCache runner_unlink_fails (Some [''./dist'']) ''build-123'' None None None) = Inr 1"
proof -
  let ?paths = "Some [''./dist'']"
  let ?entry = "\<lparr>cacheKey = Some ''build-123'',
                 archiveLocation = Some ''https://cache/build-123''\<rparr>"
  let ?unlink = "\<lambda>p :: string. Inl (new_Error ''EPERM'') :: js_error + unit"
  have valid: "valid_restore ?paths (restore_keys ''build-123'' None)"
    and paths: "valid_paths ?paths" and key: "valid_key ''build-123''"
    by (simp_all add: valid_restore_def valid_paths_def restore_keys_def valid_key_def)
  have traces: "(\<exists>pre. snd (restoreCache env ?paths ''build-123'' None None None None)
           = pre @ [UnlinkFile ''/tmp/a/cache.tgz'',
                    CoreDebug ''Failed to delete archive: Error: EPERM'']
         \<and> DownloadCache ''https://cache/build-123'' ''/tmp/a/cache.tgz'' None \<in> set pre)
      \<and> (\<exists>pre. snd (saveCache env ?paths ''build-123'' None None None)
           = pre @ [UnlinkFile ''/tmp/a/cache.tgz'',
                    CoreDebug ''Failed to delete archive: Error: EPERM''])"
    if env: "env = runner_unlink_fails" for env
  proof -
    have restore: "valid_restore ?paths (restore_keys ''build-123'' None)
      \<and> cacheHttpClient_getCacheEntry env (restore_keys ''build-123'' None) (paths_of ?paths)
          (getCompressionMethod env (default_none None)) (default_false None) = Inr (Some ?entry)
      \<and> archiveLocation ?entry = Some ''https://cache/build-123''
      \<and> truthy ''https://cache/build-123''
      \<and> \<not> options_lookupOnly None
      \<and> utils_createTempDirectory env = Inr ''/tmp/a''"
      and save: "valid_paths ?paths \<and> valid_key ''build-123''
      \<and> utils_resolvePaths env (paths_of ?paths) = Inr [''./dist'']
      \<and> [''./dist''] \<noteq> ([] :: string list)
      \<and> utils_createTempDirectory env = Inr ''/tmp/a''"
      using valid paths key unfolding env runner_unlink_fails_def
      by (simp_all add: runner_def store_lookup_def restore_keys_def paths_of_def truthy_def
            options_lookupOnly_def)
    have ap: "path_join env ''/tmp/a''
                (getCacheFileName env (getCompressionMethod env (default_none None)))
              = ''/tmp/a/cache.tgz''"
      and unlink: "utils_unlinkFile env ''/tmp/a/cache.tgz'' = Inl (new_Error ''EPERM'')"
      and printed: "error_toString (new_Error ''EPERM'') = ''Error: EPERM''"
      unfolding env runner_unlink_fails_def
      by (simp_all add: runner_def error_toString_def new_Error_def)
    note inst = archive_deleted [where env = env and paths = ?paths
        and primaryKey = "''build-123''" and restoreKeys = None and options = None
        and enableCrossOsArchive = None and customCompression = None and entry = ?entry
        and location = "''https://cache/build-123''" and folder = "''/tmp/a''"
        and key = "''build-123''" and cachePaths = "[''./dist'']" and uploadOptions = None]
    from inst [THEN conjunct1, rule_format, OF restore, THEN conjunct1]
      inst [THEN conjunct2, rule_format, OF save, THEN conjunct1]
    show ?thesis by (simp add: ap unlink printed)
  qed
  have results: "fst (restoreCache (env\<lparr>utils_unlinkFile := ?unlink\<rparr>) ?paths ''build-123''
                        None None None None) = Inr (Some ''build-123'')
      \<and> fst (saveCache (env\<lparr>utils_unlinkFile := ?unlink\<rparr>) ?paths ''build-123''
                None None None) = Inr 1"
    if env: "env = runner ''linux'' [''build-123'']" for env
  proof -
    have restore: "valid_restore ?paths (restore_keys ''build-123'' None)
      \<and> cacheHttpClient_getCacheEntry env (restore_keys ''build-123'' None) (paths_of ?paths)
          (getCompressionMethod env (default_none None)) (default_false None) = Inr (Some ?entry)
      \<and> archiveLocation ?entry = Some ''https://cache/build-123''
      \<and> truthy ''https://cache/build-123''
      \<and> \<not> options_lookupOnly None
      \<and> utils_createTempDirectory env = Inr ''/tmp/a''"
      and save: "valid_paths ?paths \<and> valid_key ''build-123''
      \<and> utils_resolvePaths env (paths_of ?paths) = Inr [''./dist'']
      \<and> [''./dist''] \<noteq> ([] :: string list)
      \<and> utils_createTempDirectory env = Inr ''/tmp/a''"
      using valid paths key unfolding env
      by (simp_all add: runner_def store_lookup_def restore_keys_def paths_of_def truthy_def
            options_lookupOnly_def)
    have plain: "fst (restoreCache env ?paths ''build-123'' None None None None)
                   = Inr (Some ''build-123'')"
      "fst (saveCache env ?paths ''build-123'' None None None) = Inr 1"
      unfolding env by (simp_all add: concrete_defs)
    note inst = archive_deleted [where env = env and paths = ?paths
        and primaryKey = "''build-123''" and restoreKeys = None and options = None
        and enableCrossOsArchive = None and customCompression = None and entry = ?entry
        and location = "''https://cache/build-123''" and folder = "''/tmp/a''"
        and key = "''build-123''" and cachePaths = "[''./dist'']" and uploadOptions = None]
    from inst [THEN conjunct1, rule_format, OF restore, THEN conjunct2, rule_format, of ?unlink]
      inst [THEN conjunct2, rule_format, OF save, THEN conjunct2, rule_format, of ?unlink]
      plain
    show ?thesis by simp
  qed
  from traces [OF refl] results [OF refl] show ?thesis
    by (simp add: runner_unlink_fails_def)
qed

section \<open>Validation of a restore\<close>

lemma valid_restore_iff:
  "valid_restore paths keys \<longleftrightarrow>
     \<not> (paths = None \<or> paths = Some [] \<or> 10 < length keys
        \<or> (\<exists>key \<in> set keys. 512 < length key \<or> CHR '','' \<in> set key))"
  by (auto simp: valid_restore_def valid_paths_def valid_key_def list_all_iff)

lemma logs_no_network: "list_all is_log w \<Longrightarrow> \<not> list_ex network_call w"
proof (induction w)
  case Nil
  then show ?case by simp
next
  case (Cons ev w)
  then show ?case by (cases ev) simp_all
qed

text \<open>
  C5. \<open>restoreCache\<close> throws an error named \<open>ValidationError\<close> with no call of the remote
  cache client in its trace exactly when \<open>paths\<close> is absent or empty, or the key list
  \<open>[primaryKey, ...restoreKeys]\<close> has more than 10 entries, or one of its keys is longer
  than 512 characters or contains a comma. In that case the error is a \<open>ValidationError\<close>
  object; otherwise the trace holds a call of the remote cache client. A key of exactly 512
  characters without a comma passes \<open>checkKey\<close>.
\<close>

theorem restoreCache_validation:
  "((\<exists>e. fst (restoreCache env paths primaryKey restoreKeys options enableCrossOsArchive customCompression) = Inl e
          \<and> name e = ''ValidationError''
          \<and> \<not> list_ex network_call (snd (restoreCache env paths primaryKey restoreKeys options enableCrossOsArchive customCompression)))
       \<longleftrightarrow> (paths = None \<or> paths = Some [] \<or> 10 < length (restore_keys primaryKey restoreKeys)
            \<or> (\<exists>key \<in> set (restore_keys primaryKey restoreKeys).
                  512 < length key \<or> CHR '','' \<in> set key)))
   \<and> ((paths = None \<or> paths = Some [] \<or> 10 < length (restore_keys primaryKey restoreKeys)
            \<or> (\<exists>key \<in> set (restore_keys primaryKey restoreKeys).
                  512 < length key \<or> CHR '','' \<in> set key))
        \<longrightarrow> (\<exists>msg. fst (restoreCache env paths primaryKey restoreKeys options enableCrossOsArchive customCompression) = Inl (new_ValidationError msg)))
   \<and> (\<not> (paths = None \<or> paths = Some [] \<or> 10 < length (restore_keys primaryKey restoreKeys)
            \<or> (\<exists>key \<in> set (restore_keys primaryKey restoreKeys).
                  512 < length key \<or> CHR '','' \<in> set key))
        \<longrightarrow> list_ex network_call (snd (restoreCache env paths primaryKey restoreKeys options enableCrossOsArchive customCompression)))
   \<and> (length key = 512 \<and> CHR '','' \<notin> set key
        \<longrightarrow> checkKey key (s :: event list \<times> 'l) = (Inr (), s))"
proof -
  let ?r = "restoreCache env paths primaryKey restoreKeys options enableCrossOsArchive customCompression"
  let ?invalid = "(paths = None \<or> paths = Some [] \<or> 10 < length (restore_keys primaryKey restoreKeys)
            \<or> (\<exists>key \<in> set (restore_keys primaryKey restoreKeys).
                  512 < length key \<or> CHR '','' \<in> set key))"
  have valid_iff: "valid_restore paths (restore_keys primaryKey restoreKeys) \<longleftrightarrow> \<not> ?invalid"
    by (rule valid_restore_iff)
  have rejected: "\<exists>msg. fst ?r = Inl (new_ValidationError msg)"
    and silent: "\<not> list_ex network_call (snd ?r)" if "?invalid"
  proof -
    from that valid_iff have "\<not> valid_restore paths (restore_keys primaryKey restoreKeys)"
      by simp
    from restoreCache_invalid [OF this, of env options enableCrossOsArchive customCompression]
    show "\<exists>msg. fst ?r = Inl (new_ValidationError msg)"
      and "\<not> list_ex network_call (snd ?r)"
      by (auto dest: logs_no_network)
  qed
  have looked_up: "list_ex network_call (snd ?r)" if "\<not> ?invalid"
  proof -
    from that valid_iff have "valid_restore paths (restore_keys primaryKey restoreKeys)"
      by simp
    from restoreCache_shape [OF this, of customCompression env options enableCrossOsArchive]
    show ?thesis by auto
  qed
  have named: "name (new_ValidationError msg) = ''ValidationError''" for msg
    by (simp add: new_ValidationError_def)
  have key: "checkKey key s = (Inr (), s)" if "length key = 512 \<and> CHR '','' \<notin> set key"
    using that by (intro checkKey_valid) (simp add: valid_key_def)
  have iff: "(\<exists>e. fst ?r = Inl e \<and> name e = ''ValidationError''
               \<and> \<not> list_ex network_call (snd ?r)) \<longleftrightarrow> ?invalid"
    using rejected silent looked_up named by metis
  from iff rejected looked_up key show ?thesis by blast
qed

theorem restoreCache_validation_witness:
  "(\<exists>e. fst (restoreCache (runner ''linux'' []) (Some [''./dist'']) (replicate 513 (CHR ''a''))
             None None None None) = Inl e
        \<and> name e = ''ValidationError''
        \<and> \<not> list_ex network_call
              (snd (restoreCache (runner ''linux'' []) (Some [''./dist''])
                 (replicate 513 (CHR ''a'')) None None None None)))
   \<and> (\<exists>msg. fst (restoreCache (runner ''linux'' []) (Some [''./dist'']) ''a,b''
                 None None None None) = Inl (new_ValidationError msg))
   \<and> (\<exists>msg. fst (restoreCache (runner ''linux'' []) (Some [''./dist'']) ''k''
                 (Some (replicate 10 ''r'')) None None None) = Inl (new_ValidationError msg))
   \<and> (\<exists>msg. fst (restoreCache (runner ''linux'' []) None ''k''
                 None None None None) = Inl (new_ValidationError msg))
   \<and> list_ex network_call
        (snd (restoreCache (runner ''linux'' []) (Some [''./dist'']) (replicate 512 (CHR ''a''))
           (Some (replicate 9 ''r'')) None None None))
   \<and> checkKey (replicate 512 (CHR ''a'')) ([], ()) = (Inr (), ([], ()))"
proof -
  note inst = restoreCache_validation [where env = "runner ''linux'' []" and options = None
      and enableCrossOsArchive = None and customCompression = None and s = "([], ())"]
  have long: "\<exists>e. fst (restoreCache (runner ''linux'' []) (Some [''./dist''])
                       (replicate 513 (CHR ''a'')) None None None None) = Inl e
        \<and> name e = ''ValidationError''
        \<and> \<not> list_ex network_call
              (snd (restoreCache (runner ''linux'' []) (Some [''./dist''])
                 (replicate 513 (CHR ''a'')) None None None None))"
    using inst [where paths = "Some [''./dist'']" and primaryKey = "replicate 513 (CHR ''a'')"
        and restoreKeys = None]
    by (simp add: restore_keys_def)
  have comma: "\<exists>msg. fst (restoreCache (runner ''linux'' []) (Some [''./dist'']) ''a,b''
                 None None None None) = Inl (new_ValidationError msg)"
    using inst [where paths = "Some [''./dist'']" and primaryKey = "''a,b''"
        and restoreKeys = None]
    by (simp add: restore_keys_def)
  have many: "\<exists>msg. fst (restoreCache (runner ''linux'' []) (Some [''./dist'']) ''k''
                 (Some (replicate 10 ''r'')) None None None) = Inl (new_ValidationError msg)"
    using inst [where paths = "Some [''./dist'']" and primaryKey = "''k''"
        and restoreKeys = "Some (replicate 10 ''r'')"]
    by (simp add: restore_keys_def)
  have absent: "\<exists>msg. fst (restoreCache (runner ''linux'' []) None ''k''
                 None None None None) = Inl (new_ValidationError msg)"
    using inst [where paths = None and primaryKey = "''k''" and restoreKeys = None]
    by (simp add: restore_keys_def)
  have passes: "list_ex network_call
        (snd (restoreCache (runner ''linux'' []) (Some [''./dist'']) (replicate 512 (CHR ''a''))
           (Some (replicate 9 ''r'')) None None None))"
    using inst [where paths = "Some [''./dist'']" and primaryKey = "replicate 512 (CHR ''a'')"
        and restoreKeys = "Some (replicate 9 ''r'')"]
    by (simp add: restore_keys_def)
  have key: "checkKey (replicate 512 (CHR ''a'')) ([], ()) = (Inr (), ([], ()))"
    using inst [where key = "replicate 512 (CHR ''a'')"] by simp
  from long comma many absent passes key show ?thesis by blast
qed

section \<open>A lookup that finds nothing\<close>

text \<open>
  C6. When \<open>restoreCache\<close> passes validation and the remote lookup returns no entry, or an
  entry without an \<open>archiveLocation\<close>, \<open>restoreCache\<close> returns \<open>undefined\<close> and throws
  nothing, and the trace holds no download: the only calls besides logging are the lookup
  and the deletion attempted by the \<open>finally\<close> clause on the empty initial \<open>archivePath\<close>.
\<close>

theorem restoreCache_miss:
  assumes valid: "valid_restore paths (restore_keys primaryKey restoreKeys)"
    and lookup: "cacheHttpClient_getCacheEntry env (restore_keys primaryKey restoreKeys)
                   (paths_of paths) (getCompressionMethod env (default_none customCompression))
                   (default_false enableCrossOsArchive) = Inr cacheEntry"
    and miss: "cacheEntry = None \<or> (\<exists>entry. cacheEntry = Some entry \<and> archiveLocation entry = None)"
  shows "fst (restoreCache env paths primaryKey restoreKeys options enableCrossOsArchive
                customCompression) = Inr None
       \<and> \<not> list_ex is_download
             (snd (restoreCache env paths primaryKey restoreKeys options enableCrossOsArchive
                customCompression))
       \<and> calls (snd (restoreCache env paths primaryKey restoreKeys options
                enableCrossOsArchive customCompression)) =
           [GetCacheEntry (restore_keys primaryKey restoreKeys) (paths_of paths)
              (getCompressionMethod env (default_none customCompression))
              (default_false enableCrossOsArchive),
            UnlinkFile []]"
proof -
  let ?ev = "GetCacheEntry (restore_keys primaryKey restoreKeys) (paths_of paths)
              (getCompressionMethod env (default_none customCompression))
              (default_false enableCrossOsArchive)"
  have body: "restoreCache_try env (restore_keys primaryKey restoreKeys) (paths_of paths) options
                (default_false enableCrossOsArchive) (default_none customCompression)
                (getCompressionMethod env (default_none customCompression)) (tr, [])
              = (Inr (Return None), (tr @ [?ev], []))" for tr
    using miss by (auto simp: restoreCache_try_def lookup)
  have run: "restoreCache env paths primaryKey restoreKeys options enableCrossOsArchive
               customCompression
             = (Inr None,
                ([CoreDebug ''Resolved Keys:'',
                  CoreDebug (JSON_stringify env (restore_keys primaryKey restoreKeys))] @ [?ev])
                @ [] @ UnlinkFile [] # unlink_log env [])"
    using restoreCache_run [OF valid body]
    by (simp add: restore_result_def restore_warning_def)
  have logs: "list_all is_log (unlink_log env [])" by (rule unlink_log_logs)
  have "\<not> list_ex is_download (unlink_log env [])"
    using logs by (simp add: unlink_log_def split: sum.splits)
  moreover have "calls (unlink_log env []) = []" using logs by (rule calls_logs)
  ultimately show ?thesis
    unfolding run by (simp add: calls_def)
qed

theorem restoreCache_miss_witness:
  "valid_restore (Some [''./dist'']) (restore_keys ''build-999'' (Some []))
   \<and> cacheHttpClient_getCacheEntry (runner ''linux'' []) [''build-999''] [''./dist''] ''gzip'' False
       = Inr None
   \<and> restoreCache (runner ''linux'' []) (Some [''./dist'']) ''build-999'' (Some []) None None None
       = (Inr None,
          [CoreDebug ''Resolved Keys:'', CoreDebug (JSON_stringify (runner ''linux'' []) [''build-999'']),
           GetCacheEntry [''build-999''] [''./dist''] ''gzip'' False,
           UnlinkFile [], CoreDebug ''Failed to delete archive: Error: ENOENT''])
   \<and> calls (snd (restoreCache (runner ''linux'' []) (Some [''./dist'']) ''build-999'' (Some [])
        None None None))
       = [GetCacheEntry [''build-999''] [''./dist''] ''gzip'' False, UnlinkFile []]"
proof -
  have valid: "valid_restore (Some [''./dist'']) (restore_keys ''build-999'' (Some []))"
    by (simp add: valid_restore_def valid_paths_def restore_keys_def valid_key_def)
  have lookup: "cacheHttpClient_getCacheEntry (runner ''linux'' [])
                  (restore_keys ''build-999'' (Some [])) (paths_of (Some [''./dist'']))
                  (getCompressionMethod (runner ''linux'' []) (default_none None))
                  (default_false None) = Inr None"
    by (simp add: runner_def store_lookup_def restore_keys_def)
  have run: "restoreCache (runner ''linux'' []) (Some [''./dist'']) ''build-999'' (Some []) None None None
       = (Inr None,
          [CoreDebug ''Resolved Keys:'', CoreDebug (JSON_stringify (runner ''linux'' []) [''build-999'']),
           GetCacheEntry [''build-999''] [''./dist''] ''gzip'' False,
           UnlinkFile [], CoreDebug ''Failed to delete archive: Error: ENOENT''])"
    by code_simp
  from restoreCache_miss [OF valid lookup, where options = None]
  have "calls (snd (restoreCache (runner ''linux'' []) (Some [''./dist'']) ''build-999'' (Some [])
          None None None))
        = [GetCacheEntry [''build-999''] [''./dist''] ''gzip'' False, UnlinkFile []]"
    by (simp add: runner_def restore_keys_def paths_of_def default_none_def default_false_def)
  with valid lookup run show ?thesis
    by (simp add: runner_def restore_keys_def paths_of_def default_none_def default_false_def)
qed

section \<open>Lookup only\<close>

text \<open>
  C7. When \<open>restoreCache\<close> passes validation, is called with the \<open>lookupOnly\<close> option and
  the remote lookup returns an entry with a (non-empty) \<open>archiveLocation\<close>, it returns the
  \<open>cacheKey\<close> of that entry, and besides logging it calls only the lookup and, in its
  \<open>finally\<close> clause, \<open>unlinkFile\<close> on the empty initial \<open>archivePath\<close>, which names no
  file: no temporary directory is created, nothing is downloaded, and no archive file is
  deleted.
\<close>

theorem restoreCache_lookup_only:
  assumes valid: "valid_restore paths (restore_keys primaryKey restoreKeys)"
    and lookup: "cacheHttpClient_getCacheEntry env (restore_keys primaryKey restoreKeys)
                   (paths_of paths) (getCompressionMethod env (default_none customCompression))
                   (default_false enableCrossOsArchive) = Inr (Some entry)"
    and location: "archiveLocation entry = Some location" "truthy location"
    and lookupOnly: "options_lookupOnly options"
  shows "fst (restoreCache env paths primaryKey restoreKeys options enableCrossOsArchive
                customCompression) = Inr (cacheKey entry)
       \<and> calls (snd (restoreCache env paths primaryKey restoreKeys options
                enableCrossOsArchive customCompression)) =
           [GetCacheEntry (restore_keys primaryKey restoreKeys) (paths_of paths)
              (getCompressionMethod env (default_none customCompression))
              (default_false enableCrossOsArchive),
            UnlinkFile []]
       \<and> \<not> list_ex is_download
             (snd (restoreCache env paths primaryKey restoreKeys options enableCrossOsArchive
                customCompression))"
proof -
  let ?ev = "GetCacheEntry (restore_keys primaryKey restoreKeys) (paths_of paths)
              (getCompressionMethod env (default_none customCompression))
              (default_false enableCrossOsArchive)"
  have body: "restoreCache_try env (restore_keys primaryKey restoreKeys) (paths_of paths) options
                (default_false enableCrossOsArchive) (default_none customCompression)
                (getCompressionMethod env (default_none customCompression)) (tr, [])
              = (Inr (Return (cacheKey entry)),
                 (tr @ [?ev, CoreInfo ''Lookup only - skipping download''], []))" for tr
    by (simp add: restoreCache_try_def lookup location lookupOnly)
  have run: "restoreCache env paths primaryKey restoreKeys options enableCrossOsArchive
               customCompression
             = (Inr (cacheKey entry),
                ([CoreDebug ''Resolved Keys:'',
                  CoreDebug (JSON_stringify env (restore_keys primaryKey restoreKeys))]
                 @ [?ev, CoreInfo ''Lookup only - skipping download''])
                @ [] @ UnlinkFile [] # unlink_log env [])"
    using restoreCache_run [OF valid body]
    by (simp add: restore_result_def restore_warning_def)
  have logs: "list_all is_log (unlink_log env [])" by (rule unlink_log_logs)
  have "\<not> list_ex is_download (unlink_log env [])"
    using logs by (simp add: unlink_log_def split: sum.splits)
  moreover have "calls (unlink_log env []) = []" using logs by (rule calls_logs)
  ultimately show ?thesis
    unfolding run by (simp add: calls_def)
qed

theorem restoreCache_lookup_only_witness:
  "valid_restore (Some [''./dist'']) (restore_keys ''build-123'' None)
   \<and> options_lookupOnly (Some \<lparr>lookupOnly = Some True\<rparr>)
   \<and> cacheHttpClient_getCacheEntry (runner ''linux'' [''build-123'']) [''build-123''] [''./dist'']
       ''gzip'' False
       = Inr (Some \<lparr>cacheKey = Some ''build-123'',
                    archiveLocation = Some ''https://cache/build-123''\<rparr>)
   \<and> fst (restoreCache (runner ''linux'' [''build-123'']) (Some [''./dist'']) ''build-123'' None
          (Some \<lparr>lookupOnly = Some True\<rparr>) None None) = Inr (Some ''build-123'')
   \<and> calls (snd (restoreCache (runner ''linux'' [''build-123'']) (Some [''./dist''])
          ''build-123'' None (Some \<lparr>lookupOnly = Some True\<rparr>) None None))
       = [GetCacheEntry [''build-123''] [''./dist''] ''gzip'' False, UnlinkFile []]"
proof -
  let ?entry = "\<lparr>cacheKey = Some ''build-123'',
                 archiveLocation = Some ''https://cache/build-123''\<rparr>"
  have valid: "valid_restore (Some [''./dist'']) (restore_keys ''build-123'' None)"
    by (simp add: valid_restore_def valid_paths_def restore_keys_def valid_key_def)
  have lookup: "cacheHttpClient_getCacheEntry (runner ''linux'' [''build-123''])
                  (restore_keys ''build-123'' None) (paths_of (Some [''./dist'']))
                  (getCompressionMethod (runner ''linux'' [''build-123'']) (default_none None))
                  (default_false None) = Inr (Some ?entry)"
    by (simp add: runner_def store_lookup_def restore_keys_def)
  have location: "archiveLocation ?entry = Some ''https://cache/build-123''"
    "truthy ''https://cache/build-123''"
    by (simp_all add: truthy_def)
  have lookupOnly: "options_lookupOnly (Some \<lparr>lookupOnly = Some True\<rparr>)"
    by (simp add: options_lookupOnly_def)
  from restoreCache_lookup_only [OF valid lookup location lookupOnly] valid lookupOnly lookup
  show ?thesis
    by (simp add: runner_def restore_keys_def paths_of_def default_none_def default_false_def)
qed

section \<open>The order of the keys and the matched key\<close>

lemma restore_warning_calls: "filter is_lookup (restore_warning rb) = []"
  by (rule filter_none [OF restore_warning_logs]) (rule is_log_not_lookup)

lemma unlink_log_lookup: "filter is_lookup (unlink_log env p) = []"
  by (rule filter_none [OF unlink_log_logs]) (rule is_log_not_lookup)

text \<open>
  C8. On valid input \<open>restoreCache\<close> makes exactly one remote lookup, with the key list
  \<open>[primaryKey, ...restoreKeys]\<close> in that order. When it returns a key, the lookup returned
  an entry with an \<open>archiveLocation\<close> and that key is the entry's \<open>cacheKey\<close>; and when the
  lookup returns such an entry and the \<open>try\<close> block completes without throwing,
  \<open>restoreCache\<close> returns the entry's \<open>cacheKey\<close>, whichever of the keys it is.
\<close>

theorem restoreCache_key_order:
  assumes valid: "valid_restore paths (restore_keys primaryKey restoreKeys)"
  shows "filter is_lookup
           (snd (restoreCache env paths primaryKey restoreKeys options enableCrossOsArchive
              customCompression)) =
           [GetCacheEntry (primaryKey # (case restoreKeys of None \<Rightarrow> [] | Some ks \<Rightarrow> ks))
              (paths_of paths) (getCompressionMethod env (default_none customCompression))
              (default_false enableCrossOsArchive)]
       \<and> (\<forall>k. fst (restoreCache env paths primaryKey restoreKeys options enableCrossOsArchive
                    customCompression) = Inr (Some k) \<longrightarrow>
              (\<exists>entry. cacheHttpClient_getCacheEntry env (restore_keys primaryKey restoreKeys)
                          (paths_of paths)
                          (getCompressionMethod env (default_none customCompression))
                          (default_false enableCrossOsArchive) = Inr (Some entry)
                  \<and> truthy_opt (archiveLocation entry) \<and> cacheKey entry = Some k))
       \<and> (\<forall>entry s c.
              cacheHttpClient_getCacheEntry env (restore_keys primaryKey restoreKeys)
                (paths_of paths) (getCompressionMethod env (default_none customCompression))
                (default_false enableCrossOsArchive) = Inr (Some entry)
              \<and> truthy_opt (archiveLocation entry)
              \<and> fst (restoreCache_try env (restore_keys primaryKey restoreKeys) (paths_of paths)
                       options (default_false enableCrossOsArchive)
                       (default_none customCompression)
                       (getCompressionMethod env (default_none customCompression)) s) = Inr c
              \<longrightarrow> fst (restoreCache env paths primaryKey restoreKeys options
                         enableCrossOsArchive customCompression) = Inr (cacheKey entry))"
proof -
  let ?keys = "restore_keys primaryKey restoreKeys"
  let ?m = "getCompressionMethod env (default_none customCompression)"
  let ?x = "default_false enableCrossOsArchive"
  let ?body = "restoreCache_try env ?keys (paths_of paths) options ?x
                 (default_none customCompression) ?m"
  let ?r = "restoreCache env paths primaryKey restoreKeys options enableCrossOsArchive
              customCompression"
  from restoreCache_shape [OF valid, of customCompression env options enableCrossOsArchive]
  obtain rb w ap
    where w: "list_all (restore_event (default_none customCompression)) w"
      and fst_body: "\<And>s. fst (?body s) = rb"
      and run: "?r = (restore_result rb,
          [CoreDebug ''Resolved Keys:'', CoreDebug (JSON_stringify env ?keys),
           GetCacheEntry ?keys (paths_of paths) ?m ?x]
          @ w @ restore_warning rb @ UnlinkFile ap # unlink_log env ap)"
    by blast
  have "filter is_lookup w = []"
    by (rule filter_none [OF w]) (rule restore_event_calls)
  then have order: "filter is_lookup (snd ?r) = [GetCacheEntry ?keys (paths_of paths) ?m ?x]"
    unfolding run by (simp add: restore_warning_calls unlink_log_lookup)
  have yielded: "case cacheHttpClient_getCacheEntry env ?keys (paths_of paths) ?m ?x of
             Inl e \<Rightarrow> False
           | Inr None \<Rightarrow> c = Return None
           | Inr (Some entry) \<Rightarrow>
               c = Return (if truthy_opt (archiveLocation entry) then cacheKey entry else None)"
    if rbc: "rb = Inr c" for c
  proof -
    obtain s' where "?body ([], []) = (Inr c, s')"
      using fst_body [of "([], [])"] rbc by (cases "?body ([], [])") auto
    with restoreCache_try_returns [of env ?keys "paths_of paths" ?m ?x options
        "default_none customCompression"]
    show ?thesis unfolding returns_def by blast
  qed
  have found: "\<exists>entry. cacheHttpClient_getCacheEntry env ?keys (paths_of paths) ?m ?x
                   = Inr (Some entry)
                 \<and> truthy_opt (archiveLocation entry) \<and> cacheKey entry = Some k"
    if "fst ?r = Inr (Some k)" for k
  proof -
    from that have "rb = Inr (Return (Some k))"
      unfolding run by (auto simp: restore_result_def split: sum.splits completion.splits if_splits)
    from yielded [OF this] show ?thesis
      by (auto split: sum.splits option.splits if_splits)
  qed
  have hit: "fst ?r = Inr (cacheKey entry)"
    if "cacheHttpClient_getCacheEntry env ?keys (paths_of paths) ?m ?x = Inr (Some entry)"
      and "truthy_opt (archiveLocation entry)" and "fst (?body s) = Inr c" for entry s c
  proof -
    from that(3) fst_body [of s] have rb: "rb = Inr c" by simp
    from yielded [OF rb] that(1,2) have "c = Return (cacheKey entry)" by simp
    with rb show ?thesis unfolding run by (simp add: restore_result_def)
  qed
  from order found hit show ?thesis
    unfolding restore_keys_def by blast
qed

theorem restoreCache_key_order_witness:
  "valid_restore (Some [''./dist'']) (restore_keys ''K1'' (Some [''K2'', ''K3'']))
   \<and> filter is_lookup
       (snd (restoreCache (runner ''linux'' [''K2'']) (Some [''./dist'']) ''K1''
          (Some [''K2'', ''K3'']) None None None))
       = [GetCacheEntry [''K1'', ''K2'', ''K3''] [''./dist''] ''gzip'' False]
   \<and> cacheHttpClient_getCacheEntry (runner ''linux'' [''K2'']) [''K1'', ''K2'', ''K3''] [''./dist'']
       ''gzip'' False
       = Inr (Some \<lparr>cacheKey = Some ''K2'', archiveLocation = Some ''https://cache/K2''\<rparr>)
   \<and> fst (restoreCache (runner ''linux'' [''K2'']) (Some [''./dist'']) ''K1''
          (Some [''K2'', ''K3'']) None None None) = Inr (Some ''K2'')"
proof -
  let ?env = "runner ''linux'' [''K2'']"
  let ?entry = "\<lparr>cacheKey = Some ''K2'', archiveLocation = Some ''https://cache/K2''\<rparr>"
  have valid: "valid_restore (Some [''./dist'']) (restore_keys ''K1'' (Some [''K2'', ''K3'']))"
    by (simp add: valid_restore_def valid_paths_def restore_keys_def valid_key_def)
  have lookup: "cacheHttpClient_getCacheEntry ?env (restore_keys ''K1'' (Some [''K2'', ''K3'']))
                  (paths_of (Some [''./dist'']))
                  (getCompressionMethod ?env (default_none None)) (default_false None)
                = Inr (Some ?entry)"
    by (simp add: runner_def store_lookup_def restore_keys_def)
  have location: "truthy_opt (archiveLocation ?entry)"
    by (simp add: truthy_opt_def truthy_def)
  have body: "fst (restoreCache_try ?env (restore_keys ''K1'' (Some [''K2'', ''K3'']))
                (paths_of (Some [''./dist''])) None (default_false None) (default_none None)
                (getCompressionMethod ?env (default_none None)) ([], []))
              = Inr (Return (Some ''K2''))"
    by (simp add: concrete_defs)
  note inst = restoreCache_key_order [OF valid, of ?env None None None]
  from inst have order: "filter is_lookup
       (snd (restoreCache ?env (Some [''./dist'']) ''K1'' (Some [''K2'', ''K3'']) None None None))
       = [GetCacheEntry [''K1'', ''K2'', ''K3''] [''./dist''] ''gzip'' False]"
    by (simp add: runner_def paths_of_def default_none_def default_false_def)
  from inst lookup location body
  have "fst (restoreCache ?env (Some [''./dist'']) ''K1'' (Some [''K2'', ''K3'']) None None None)
          = Inr (cacheKey ?entry)"
    by blast
  with valid order lookup show ?thesis
    by (simp add: runner_def restore_keys_def paths_of_def default_none_def default_false_def)
qed

section \<open>Nothing to cache\<close>

text \<open>
  C9. When a save is given a non-empty path list and a valid key, and the path resolution
  returns no path, \<open>saveCache\<close> and \<open>saveCacheSync\<close> throw the plain \<open>Error\<close> made by
  \<open>new Error("Path Validation Error: ...")\<close>, whose name is not that of a
  \<open>ValidationError\<close>; they do not return \<open>-1\<close>, and the remote cache client is not called.
\<close>

theorem saveCache_no_paths:
  assumes paths: "valid_paths paths" and key: "valid_key key"
    and resolve: "utils_resolvePaths env (paths_of paths) = Inr []"
  shows "fst (saveCache env paths key options enableCrossOsArchive customCompression) =
           Inl (new_Error ''Path Validation Error: Path(s) specified in the action for caching do(es) not exist, hence no cache is being saved.'')
       \<and> fst (saveCacheSync env paths key) =
           Inl (new_Error ''Path Validation Error: Path(s) specified in the action for caching do(es) not exist, hence no cache is being saved.'')
       \<and> name (new_Error ''Path Validation Error: Path(s) specified in the action for caching do(es) not exist, hence no cache is being saved.'')
           \<noteq> ValidationError_name
       \<and> cls (new_Error ''Path Validation Error: Path(s) specified in the action for caching do(es) not exist, hence no cache is being saved.'')
           \<noteq> ValidationErrorClass
       \<and> \<not> list_ex network_call
             (snd (saveCache env paths key options enableCrossOsArchive customCompression))
       \<and> \<not> list_ex network_call (snd (saveCacheSync env paths key))"
proof -
  from paths have check: "checkPaths paths s = (Inr (), s)" for s :: "event list \<times> int"
    by (auto simp: valid_paths_def checkPaths_def)
  have archive: "saveCache env paths key options enableCrossOsArchive customCompression =
      (Inl (new_Error ''Path Validation Error: Path(s) specified in the action for caching do(es) not exist, hence no cache is being saved.''),
       [CoreInfo ''Saving Cache via archive.'', CoreInfo (JSON_stringify env (paths_of paths)),
        ResolvePaths (paths_of paths), CoreInfo ''Cache Paths:'', CoreInfo (JSON_stringify env [])])"
    unfolding saveCache_def Let_def run_def
    by (simp add: check checkKey_valid [OF key] resolve)
  have sync: "saveCacheSync env paths key =
      (Inl (new_Error ''Path Validation Error: Path(s) specified in the action for caching do(es) not exist, hence no cache is being saved.''),
       [CoreInfo ''Saving Cache via sync.'', ResolvePaths (paths_of paths),
        CoreDebug ''Cache Paths:'', CoreDebug (JSON_stringify env [])])"
    unfolding saveCacheSync_def run_def
    by (simp add: check checkKey_valid [OF key] resolve)
  show ?thesis
    unfolding archive sync
    by (simp add: new_Error_def ValidationError_name_def)
qed

theorem saveCache_no_paths_witness:
  "valid_paths (Some [''./nothing'']) \<and> valid_key ''build-123''
   \<and> utils_resolvePaths (runner ''linux'' []) (paths_of (Some [''./nothing''])) = Inr []
   \<and> fst (saveCache (runner ''linux'' []) (Some [''./nothing'']) ''build-123'' None None None) =
       Inl \<lparr>cls = ErrorClass, name = ''Error'',
            message = ''Path Validation Error: Path(s) specified in the action for caching do(es) not exist, hence no cache is being saved.''\<rparr>
   \<and> fst (saveCacheSync (runner ''linux'' []) (Some [''./nothing'']) ''build-123'') =
       Inl \<lparr>cls = ErrorClass, name = ''Error'',
            message = ''Path Validation Error: Path(s) specified in the action for caching do(es) not exist, hence no cache is being saved.''\<rparr>"
proof -
  have paths: "valid_paths (Some [''./nothing''])" by (simp add: valid_paths_def)
  have key: "valid_key ''build-123''" by (simp add: valid_key_def)
  have resolve: "utils_resolvePaths (runner ''linux'' []) (paths_of (Some [''./nothing''])) = Inr []"
    by (simp add: runner_def paths_of_def)
  from saveCache_no_paths [OF paths key resolve, of None None None] paths key resolve
  show ?thesis by (simp add: new_Error_def)
qed

section \<open>Errors are told apart by their name\<close>

lemma saveCacheSync_outcome:
  assumes reach: "valid_paths paths" "valid_key key"
      "utils_resolvePaths env (paths_of paths) = Inr cachePaths" "cachePaths \<noteq> []"
    and body: "fst (saveCacheSync_try env key (paths_of paths) s) = rb"
  shows "fst (saveCacheSync env paths key) = save_result rb"
    and "set (save_log rb) \<subseteq> set (snd (saveCacheSync env paths key))"
    and "list_ex is_warning (snd (saveCacheSync env paths key))
           \<longleftrightarrow> list_ex is_warning (save_log rb)"
proof -
  from saveCacheSync_shape [OF reach] obtain rb'
    where fst_body: "\<And>s. fst (saveCacheSync_try env key (paths_of paths) s) = rb'"
      and run: "saveCacheSync env paths key =
         (save_result rb',
          [CoreInfo ''Saving Cache via sync.'', ResolvePaths (paths_of paths),
           CoreDebug ''Cache Paths:'', CoreDebug (JSON_stringify env cachePaths),
           SaveCacheSync key (paths_of paths)]
          @ save_log rb')"
    by blast
  from fst_body [of s] body have "rb' = rb" by simp
  with run show "fst (saveCacheSync env paths key) = save_result rb"
    and "set (save_log rb) \<subseteq> set (snd (saveCacheSync env paths key))"
    and "list_ex is_warning (snd (saveCacheSync env paths key))
           \<longleftrightarrow> list_ex is_warning (save_log rb)"
    by auto
qed

text \<open>What the \<open>catch\<close> clause of the save functions makes of an error, by its name alone.\<close>

lemma save_by_name:
  "(name e = ''ValidationError'' \<longrightarrow> save_result (Inl e) = Inl e)
   \<and> (name e \<noteq> ''ValidationError'' \<longrightarrow> save_result (Inl e) = Inr (- 1))
   \<and> (name e \<noteq> ''ValidationError'' \<and> name e = ''ReserveCacheError'' \<longrightarrow>
        save_log (Inl e) = [CoreInfo (''Failed to save: '' @ message e)])
   \<and> (name e \<noteq> ''ValidationError'' \<and> name e \<noteq> ''ReserveCacheError'' \<longrightarrow>
        save_log (Inl e) = [CoreWarning (''Failed to save: '' @ message e)])"
  by (simp add: save_result_def save_log_def ValidationError_name_def ReserveCacheError_name_def)

text \<open>
  C10. Whether a caught error is fatal is decided by its \<open>name\<close> alone. Whatever its class
  and whichever call threw it, an error thrown in the \<open>try\<close> block whose \<open>name\<close> is
  \<open>"ValidationError"\<close> is thrown again by \<open>restoreCache\<close>, \<open>restoreCacheSync\<close>, \<open>saveCache\<close>
  and \<open>saveCacheSync\<close>. An error of any other name makes the save functions return \<open>-1\<close>; it
  is treated as a reservation conflict, logged by \<open>core.info\<close> and with no warning, exactly
  when its \<open>name\<close> is \<open>"ReserveCacheError"\<close>, and is logged as a warning otherwise.
\<close>

theorem errors_by_name:
  "(valid_restore paths (restore_keys primaryKey restoreKeys) \<longrightarrow>
      (\<forall>s e. fst (restoreCache_try env (restore_keys primaryKey restoreKeys)
                      (paths_of paths) options (default_false enableCrossOsArchive)
                      (default_none customCompression)
                      (getCompressionMethod env (default_none customCompression)) s) = Inl e
               \<and> name e = ''ValidationError''
          \<longrightarrow> fst (restoreCache env paths primaryKey restoreKeys options enableCrossOsArchive
                     customCompression) = Inl e))
   \<and> (valid_paths paths \<and> valid_key primaryKey \<longrightarrow>
      (\<forall>s e. fst (restoreCacheSync_try env primaryKey (paths_of paths) options s) = Inl e
               \<and> name e = ''ValidationError''
          \<longrightarrow> fst (restoreCacheSync env paths primaryKey options) = Inl e))
   \<and> (valid_paths paths \<and> valid_key key
      \<and> utils_resolvePaths env (paths_of paths) = Inr cachePaths \<and> cachePaths \<noteq> []
      \<and> utils_createTempDirectory env = Inr archiveFolder \<longrightarrow>
      (\<forall>s e. fst (saveCache_try env (paths_of paths) key (default_false enableCrossOsArchive)
                      (default_none customCompression)
                      (getCompressionMethod env (default_none customCompression)) archiveFolder
                      (path_join env archiveFolder
                         (getCacheFileName env
                            (getCompressionMethod env (default_none customCompression))))
                      cachePaths s) = Inl e
          \<longrightarrow> (name e = ''ValidationError'' \<longrightarrow>
                  fst (saveCache env paths key uploadOptions enableCrossOsArchive
                         customCompression) = Inl e)
              \<and> (name e \<noteq> ''ValidationError'' \<longrightarrow>
                  fst (saveCache env paths key uploadOptions enableCrossOsArchive
                         customCompression) = Inr (- 1)
                  \<and> (name e = ''ReserveCacheError'' \<longrightarrow>
                       CoreInfo (''Failed to save: '' @ message e)
                         \<in> set (snd (saveCache env paths key uploadOptions
                                      enableCrossOsArchive customCompression))
                       \<and> \<not> list_ex is_warning
                             (snd (saveCache env paths key uploadOptions enableCrossOsArchive
                                     customCompression)))
                  \<and> (name e \<noteq> ''ReserveCacheError'' \<longrightarrow>
                       CoreWarning (''Failed to save: '' @ message e)
                         \<in> set (snd (saveCache env paths key uploadOptions
                                      enableCrossOsArchive customCompression))))))
   \<and> (valid_paths paths \<and> valid_key key
      \<and> utils_resolvePaths env (paths_of paths) = Inr cachePaths \<and> cachePaths \<noteq> [] \<longrightarrow>
      (\<forall>s e. fst (saveCacheSync_try env key (paths_of paths) s) = Inl e
          \<longrightarrow> (name e = ''ValidationError'' \<longrightarrow> fst (saveCacheSync env paths key) = Inl e)
              \<and> (name e \<noteq> ''ValidationError'' \<longrightarrow>
                  fst (saveCacheSync env paths key) = Inr (- 1)
                  \<and> (name e = ''ReserveCacheError'' \<longrightarrow>
                       CoreInfo (''Failed to save: '' @ message e)
                         \<in> set (snd (saveCacheSync env paths key))
                       \<and> \<not> list_ex is_warning (snd (saveCacheSync env paths key)))
                  \<and> (name e \<noteq> ''ReserveCacheError'' \<longrightarrow>
                       CoreWarning (''Failed to save: '' @ message e)
                         \<in> set (snd (saveCacheSync env paths key))))))"
proof -
  have restore: "restore_result (Inl e) = Inl e" if "name e = ''ValidationError''" for e
    using that by (simp add: restore_result_def ValidationError_name_def)
  have archive: "fst (restoreCache env paths primaryKey restoreKeys options enableCrossOsArchive
                        customCompression) = Inl e"
    if valid: "valid_restore paths (restore_keys primaryKey restoreKeys)"
      and body: "fst (restoreCache_try env (restore_keys primaryKey restoreKeys)
                      (paths_of paths) options (default_false enableCrossOsArchive)
                      (default_none customCompression)
                      (getCompressionMethod env (default_none customCompression)) s) = Inl e"
      and e: "name e = ''ValidationError''" for s e
    using restoreCache_outcome(1) [OF valid body] restore [OF e] by simp
  have sync: "fst (restoreCacheSync env paths primaryKey options) = Inl e"
    if valid: "valid_paths paths" "valid_key primaryKey"
      and body: "fst (restoreCacheSync_try env primaryKey (paths_of paths) options s) = Inl e"
      and e: "name e = ''ValidationError''" for s e
    using restoreCacheSync_outcome(1) [OF valid body] restore [OF e] by simp
  have save: "(name e = ''ValidationError'' \<longrightarrow>
                  fst (saveCache env paths key uploadOptions enableCrossOsArchive
                         customCompression) = Inl e)
              \<and> (name e \<noteq> ''ValidationError'' \<longrightarrow>
                  fst (saveCache env paths key uploadOptions enableCrossOsArchive
                         customCompression) = Inr (- 1)
                  \<and> (name e = ''ReserveCacheError'' \<longrightarrow>
                       CoreInfo (''Failed to save: '' @ message e)
                         \<in> set (snd (saveCache env paths key uploadOptions
                                      enableCrossOsArchive customCompression))
                       \<and> \<not> list_ex is_warning
                             (snd (saveCache env paths key uploadOptions enableCrossOsArchive
                                     customCompression)))
                  \<and> (name e \<noteq> ''ReserveCacheError'' \<longrightarrow>
                       CoreWarning (''Failed to save: '' @ message e)
                         \<in> set (snd (saveCache env paths key uploadOptions
                                      enableCrossOsArchive customCompression))))"
    if reach: "valid_paths paths" "valid_key key"
      "utils_resolvePaths env (paths_of paths) = Inr cachePaths" "cachePaths \<noteq> []"
      "utils_createTempDirectory env = Inr archiveFolder"
      and body: "fst (saveCache_try env (paths_of paths) key (default_false enableCrossOsArchive)
                      (default_none customCompression)
                      (getCompressionMethod env (default_none customCompression)) archiveFolder
                      (path_join env archiveFolder
                         (getCacheFileName env
                            (getCompressionMethod env (default_none customCompression))))
                      cachePaths s) = Inl e" for s e
    using saveCache_outcome [OF reach body, of uploadOptions] save_by_name [of e]
    by auto
  have save_sync: "(name e = ''ValidationError'' \<longrightarrow> fst (saveCacheSync env paths key) = Inl e)
              \<and> (name e \<noteq> ''ValidationError'' \<longrightarrow>
                  fst (saveCacheSync env paths key) = Inr (- 1)
                  \<and> (name e = ''ReserveCacheError'' \<longrightarrow>
                       CoreInfo (''Failed to save: '' @ message e)
                         \<in> set (snd (saveCacheSync env paths key))
                       \<and> \<not> list_ex is_warning (snd (saveCacheSync env paths key)))
                  \<and> (name e \<noteq> ''ReserveCacheError'' \<longrightarrow>
                       CoreWarning (''Failed to save: '' @ message e)
                         \<in> set (snd (saveCacheSync env paths key))))"
    if reach: "valid_paths paths" "valid_key key"
      "utils_resolvePaths env (paths_of paths) = Inr cachePaths" "cachePaths \<noteq> []"
      and body: "fst (saveCacheSync_try env key (paths_of paths) s) = Inl e" for s e
    using saveCacheSync_outcome [OF reach body] save_by_name [of e]
    by auto
  from archive sync save save_sync show ?thesis by blast
qed
theorem errors_by_name_witness:
  "fst (restoreCache runner_lookup_rejects (Some [''./dist'']) ''build-123'' None None None None)
     = Inl \<lparr>cls = ForeignClass ''HttpClientError'', name = ''ValidationError'',
            message = ''bad request''\<rparr>
   \<and> fst (restoreCacheSync runner_lookup_rejects (Some [''./dist'']) ''build-123'' None)
     = Inl \<lparr>cls = ForeignClass ''HttpClientError'', name = ''ValidationError'',
            message = ''bad request''\<rparr>
   \<and> fst (saveCache runner_upload_rejects (Some [''./dist'']) ''build-123'' None None None)
     = Inl \<lparr>cls = ForeignClass ''HttpClientError'', name = ''ValidationError'',
            message = ''bad request''\<rparr>
   \<and> fst (saveCacheSync runner_upload_rejects (Some [''./dist'']) ''build-123'')
     = Inl \<lparr>cls = ForeignClass ''HttpClientError'', name = ''ValidationError'',
            message = ''bad request''\<rparr>
   \<and> fst (saveCache runner_reserved (Some [''./dist'']) ''build-123'' None None None) = Inr (- 1)
   \<and> CoreInfo ''Failed to save: already reserved''
       \<in> set (snd (saveCache runner_reserved (Some [''./dist'']) ''build-123'' None None None))
   \<and> \<not> list_ex is_warning
         (snd (saveCache runner_reserved (Some [''./dist'']) ''build-123'' None None None))
   \<and> fst (saveCacheSync runner_reserved (Some [''./dist'']) ''build-123'') = Inr (- 1)
   \<and> CoreInfo ''Failed to save: already reserved''
       \<in> set (snd (saveCacheSync runner_reserved (Some [''./dist'']) ''build-123''))"
proof -
  let ?paths = "Some [''./dist'']"
  let ?foreign = "\<lparr>cls = ForeignClass ''HttpClientError'', name = ''ValidationError'',
                    message = ''bad request''\<rparr>"
  let ?reserved = "new_ReserveCacheError ''already reserved''"
  have valid: "valid_restore ?paths (restore_keys ''build-123'' None)"
    and paths: "valid_paths ?paths" and key: "valid_key ''build-123''"
    by (simp_all add: valid_restore_def valid_paths_def restore_keys_def valid_key_def)
  have foreign: "name ?foreign = ''ValidationError''" by simp
  have reserved: "name ?reserved \<noteq> ''ValidationError''" "name ?reserved = ''ReserveCacheError''"
    "message ?reserved = ''already reserved''"
    by (simp_all add: new_ReserveCacheError_def)
  have restore: "fst (restoreCache env ?paths ''build-123'' None None None None) = Inl ?foreign"
    and restore_sync: "fst (restoreCacheSync env ?paths ''build-123'' None) = Inl ?foreign"
    if env: "env = runner_lookup_rejects" for env
  proof -
    have body: "fst (restoreCache_try env (restore_keys ''build-123'' None) (paths_of ?paths) None
                  (default_false None) (default_none None)
                  (getCompressionMethod env (default_none None)) ([], [])) = Inl ?foreign"
      and body_sync: "fst (restoreCacheSync_try env ''build-123'' (paths_of ?paths) None ([], ()))
                  = Inl ?foreign"
      unfolding env runner_lookup_rejects_def by (simp_all add: concrete_defs)
    note inst = errors_by_name [where env = env and paths = ?paths
        and primaryKey = "''build-123''" and restoreKeys = None and options = None
        and enableCrossOsArchive = None and customCompression = None]
    from inst [THEN conjunct1, rule_format, OF valid conjI [OF body foreign]]
    show "fst (restoreCache env ?paths ''build-123'' None None None None) = Inl ?foreign" .
    from inst [THEN conjunct2, THEN conjunct1, rule_format,
        OF conjI [OF paths key] conjI [OF body_sync foreign]]
    show "fst (restoreCacheSync env ?paths ''build-123'' None) = Inl ?foreign" .
  qed
  have reach: "valid_paths ?paths \<and> valid_key ''build-123''
      \<and> utils_resolvePaths env (paths_of ?paths) = Inr [''./dist'']
      \<and> [''./dist''] \<noteq> ([] :: string list)
      \<and> utils_createTempDirectory env = Inr ''/tmp/a''"
    and reach_sync: "valid_paths ?paths \<and> valid_key ''build-123''
      \<and> utils_resolvePaths env (paths_of ?paths) = Inr [''./dist'']
      \<and> [''./dist''] \<noteq> ([] :: string list)"
    if "env = runner_upload_rejects \<or> env = runner_reserved" for env
    using that paths key
    by (auto simp: runner_upload_rejects_def runner_reserved_def runner_def paths_of_def)
  have save: "fst (saveCache env ?paths ''build-123'' None None None) = Inl ?foreign"
    and save_sync: "fst (saveCacheSync env ?paths ''build-123'') = Inl ?foreign"
    if env: "env = runner_upload_rejects" for env
  proof -
    have body: "fst (saveCache_try env (paths_of ?paths) ''build-123'' (default_false None)
                  (default_none None) (getCompressionMethod env (default_none None)) ''/tmp/a''
                  (path_join env ''/tmp/a''
                     (getCacheFileName env (getCompressionMethod env (default_none None))))
                  [''./dist''] ([], 0)) = Inl ?foreign"
      and body_sync: "fst (saveCacheSync_try env ''build-123'' (paths_of ?paths) ([], 0))
                  = Inl ?foreign"
      unfolding env runner_upload_rejects_def by (simp_all add: concrete_defs)
    note inst = errors_by_name [where env = env and paths = ?paths and key = "''build-123''"
        and cachePaths = "[''./dist'']" and archiveFolder = "''/tmp/a''"
        and uploadOptions = None and enableCrossOsArchive = None and customCompression = None]
    from env have here: "env = runner_upload_rejects \<or> env = runner_reserved" by simp
    from inst [THEN conjunct2, THEN conjunct2, THEN conjunct1, rule_format,
        OF reach [OF here] body, THEN conjunct1, rule_format, OF foreign]
    show "fst (saveCache env ?paths ''build-123'' None None None) = Inl ?foreign" .
    from inst [THEN conjunct2, THEN conjunct2, THEN conjunct2, rule_format,
        OF reach_sync [OF here] body_sync, THEN conjunct1, rule_format, OF foreign]
    show "fst (saveCacheSync env ?paths ''build-123'') = Inl ?foreign" .
  qed
  have conflict: "fst (saveCache env ?paths ''build-123'' None None None) = Inr (- 1)
      \<and> CoreInfo (''Failed to save: '' @ message ?reserved)
          \<in> set (snd (saveCache env ?paths ''build-123'' None None None))
      \<and> \<not> list_ex is_warning (snd (saveCache env ?paths ''build-123'' None None None))"
    and conflict_sync: "fst (saveCacheSync env ?paths ''build-123'') = Inr (- 1)
      \<and> CoreInfo (''Failed to save: '' @ message ?reserved)
          \<in> set (snd (saveCacheSync env ?paths ''build-123''))"
    if env: "env = runner_reserved" for env
  proof -
    have body: "fst (saveCache_try env (paths_of ?paths) ''build-123'' (default_false None)
                  (default_none None) (getCompressionMethod env (default_none None)) ''/tmp/a''
                  (path_join env ''/tmp/a''
                     (getCacheFileName env (getCompressionMethod env (default_none None))))
                  [''./dist''] ([], 0)) = Inl ?reserved"
      and body_sync: "fst (saveCacheSync_try env ''build-123'' (paths_of ?paths) ([], 0))
                  = Inl ?reserved"
      unfolding env runner_reserved_def by (simp_all add: concrete_defs)
    note inst = errors_by_name [where env = env and paths = ?paths and key = "''build-123''"
        and cachePaths = "[''./dist'']" and archiveFolder = "''/tmp/a''"
        and uploadOptions = None and enableCrossOsArchive = None and customCompression = None]
    from env have here: "env = runner_upload_rejects \<or> env = runner_reserved" by simp
    from inst [THEN conjunct2, THEN conjunct2, THEN conjunct1, rule_format,
        OF reach [OF here] body, THEN conjunct2, rule_format, OF reserved(1)] reserved(2)
    show "fst (saveCache env ?paths ''build-123'' None None None) = Inr (- 1)
      \<and> CoreInfo (''Failed to save: '' @ message ?reserved)
          \<in> set (snd (saveCache env ?paths ''build-123'' None None None))
      \<and> \<not> list_ex is_warning (snd (saveCache env ?paths ''build-123'' None None None))"
      by blast
    from inst [THEN conjunct2, THEN conjunct2, THEN conjunct2, rule_format,
        OF reach_sync [OF here] body_sync, THEN conjunct2, rule_format, OF reserved(1)] reserved(2)
    show "fst (saveCacheSync env ?paths ''build-123'') = Inr (- 1)
      \<and> CoreInfo (''Failed to save: '' @ message ?reserved)
          \<in> set (snd (saveCacheSync env ?paths ''build-123''))"
      by blast
  qed
  from restore [OF refl] restore_sync [OF refl] save [OF refl] save_sync [OF refl]
    conflict [OF refl] conflict_sync [OF refl] reserved(3)
  show ?thesis by simp
qed

end
